theory Spec2Isabelle
  imports Main "HOL-Library.Sublist" "HOL-Library.Multiset"
begin

section \<open>Python values, run states and exceptions\<close>

text \<open>
  The workflows of \<^verbatim>\<open>src/agent\<close> thread a Python dict through their steps. The
  type annotations say every field is a \<^verbatim>\<open>str\<close>, but the entry points themselves
  start a run with \<^verbatim>\<open>'tweet': None\<close>, so a field holds \<^verbatim>\<open>None\<close> or a string, and
  a key may be missing from the dict altogether. A string is a list of bytes (UTF-8).
\<close>

datatype exn = KeyError string | TypeError string | IndexError | Raised string

datatype pyval = PyNone | PyStr string

type_synonym 'v state = "string \<rightharpoonup> 'v"

text \<open>Python truthiness: \<^verbatim>\<open>None\<close> and the empty string are false.\<close>

fun truthy :: "pyval \<Rightarrow> bool" where
  "truthy PyNone = False"
| "truthy (PyStr s) = (s \<noteq> [])"

text \<open>What an f-string writes for a value.\<close>

fun py_str :: "pyval \<Rightarrow> string" where
  "py_str PyNone = ''None''"
| "py_str (PyStr s) = s"

text \<open>\<^verbatim>\<open>state.get(k)\<close>, \<^verbatim>\<open>state.get(k, d)\<close> and \<^verbatim>\<open>state[k]\<close>.\<close>

definition state_get :: "pyval state \<Rightarrow> string \<Rightarrow> pyval" where
  "state_get s k = (case s k of None \<Rightarrow> PyNone | Some v \<Rightarrow> v)"

definition state_get_default :: "pyval state \<Rightarrow> string \<Rightarrow> pyval \<Rightarrow> pyval" where
  "state_get_default s k d = (case s k of None \<Rightarrow> d | Some v \<Rightarrow> v)"

definition state_item :: "'v state \<Rightarrow> string \<Rightarrow> exn + 'v" where
  "state_item s k = (case s k of None \<Rightarrow> Inl (KeyError k) | Some v \<Rightarrow> Inr v)"

text \<open>
  \<^verbatim>\<open>str.strip()\<close> removes leading and trailing whitespace, that is every
  character for which \<^verbatim>\<open>str.isspace()\<close> holds. Below 128 these are tab, line feed,
  vertical tab, form feed, carriage return, the four separators 28 to 31 and the
  space; the others are U+0085, U+00A0, U+1680, U+2000 to U+200A, U+2028, U+2029,
  U+202F, U+205F and U+3000, listed here by their UTF-8 bytes.
\<close>

definition is_space :: "char \<Rightarrow> bool" where
  "is_space c = (c \<in> set [CHR 0x09, CHR 0x0A, CHR 0x0B, CHR 0x0C, CHR 0x0D,
                           CHR 0x1C, CHR 0x1D, CHR 0x1E, CHR 0x1F, CHR 0x20])"

definition whitespace :: "string list" where
  "whitespace =
     [[CHR 0x09], [CHR 0x0A], [CHR 0x0B], [CHR 0x0C], [CHR 0x0D],
      [CHR 0x1C], [CHR 0x1D], [CHR 0x1E], [CHR 0x1F], [CHR 0x20],
      [CHR 0xC2, CHR 0x85], [CHR 0xC2, CHR 0xA0], [CHR 0xE1, CHR 0x9A, CHR 0x80],
      [CHR 0xE2, CHR 0x80, CHR 0x80], [CHR 0xE2, CHR 0x80, CHR 0x81],
      [CHR 0xE2, CHR 0x80, CHR 0x82], [CHR 0xE2, CHR 0x80, CHR 0x83],
      [CHR 0xE2, CHR 0x80, CHR 0x84], [CHR 0xE2, CHR 0x80, CHR 0x85],
      [CHR 0xE2, CHR 0x80, CHR 0x86], [CHR 0xE2, CHR 0x80, CHR 0x87],
      [CHR 0xE2, CHR 0x80, CHR 0x88], [CHR 0xE2, CHR 0x80, CHR 0x89],
      [CHR 0xE2, CHR 0x80, CHR 0x8A], [CHR 0xE2, CHR 0x80, CHR 0xA8],
      [CHR 0xE2, CHR 0x80, CHR 0xA9], [CHR 0xE2, CHR 0x80, CHR 0xAF],
      [CHR 0xE2, CHR 0x81, CHR 0x9F], [CHR 0xE3, CHR 0x80, CHR 0x80]]"

text \<open>
  \<open>drop_prefix e s\<close> is what follows \<open>e\<close> at the start of \<open>s\<close>; \<open>drop_first\<close> removes
  one whitespace character from the start, if there is one; \<open>strip_leading\<close> removes
  them all. The end of the text is stripped on the reversed bytes.
\<close>

fun drop_prefix :: "string \<Rightarrow> string \<Rightarrow> string option" where
  "drop_prefix [] s = Some s"
| "drop_prefix (c # cs) [] = None"
| "drop_prefix (c # cs) (d # ds) = (if c = d then drop_prefix cs ds else None)"

fun drop_first :: "string list \<Rightarrow> string \<Rightarrow> string option" where
  "drop_first [] s = None"
| "drop_first (e # es) s =
     (case drop_prefix e s of
        Some r \<Rightarrow> if e = [] then drop_first es s else Some r
      | None \<Rightarrow> drop_first es s)"

lemma drop_prefix_length: "drop_prefix e s = Some r \<Longrightarrow> length s = length e + length r"
  by (induction e s rule: drop_prefix.induct) (auto split: if_splits)

lemma drop_first_shorter: "drop_first es s = Some r \<Longrightarrow> length r < length s"
proof (induction es)
  case Nil
  then show ?case by simp
next
  case (Cons e es)
  then show ?case
    by (auto split: option.splits if_splits dest: drop_prefix_length)
qed

function strip_leading :: "string list \<Rightarrow> string \<Rightarrow> string" where
  "strip_leading ws s =
     (case drop_first ws s of None \<Rightarrow> s | Some r \<Rightarrow> strip_leading ws r)"
  by pat_completeness auto
termination
  by (relation "measure (\<lambda>(ws, s). length s)") (auto dest: drop_first_shorter)

definition strip :: "string \<Rightarrow> string" where
  "strip s = rev (strip_leading (map rev whitespace) (rev (strip_leading whitespace s)))"

text \<open>\<^verbatim>\<open>sep.join(parts)\<close>.\<close>

fun join :: "string \<Rightarrow> string list \<Rightarrow> string" where
  "join sep [] = []"
| "join sep [x] = x"
| "join sep (x # y # ys) = x @ sep @ join sep (y # ys)"

section \<open>The outside world\<close>

text \<open>
  A timestamp is the instant a \<^verbatim>\<open>datetime\<close> denotes, in microseconds. The store keeps
  its ISO-8601 text, which SQLite compares as text; the text of a Python \<^verbatim>\<open>datetime\<close>
  (four-digit year, zero-padded fields, the fraction dropped only when it is zero)
  orders as the instants do, so the model compares the instants.
\<close>

type_synonym timestamp = int

definition timedelta_days :: "int \<Rightarrow> int" where
  "timedelta_days d = d * 86400000000"

text \<open>Rows of \<^verbatim>\<open>tweets_log\<close> and \<^verbatim>\<open>posts_log\<close>; \<^verbatim>\<open>PyNone\<close> in a column is SQL NULL.\<close>

record tweet_row =
  tweet_id :: nat
  tweet_content :: pyval
  post_datetime :: timestamp
  data_summary :: pyval

record post_row =
  post_id :: nat
  post_content :: pyval
  fb_post_datetime :: timestamp
  event :: pyval
  coordinates :: pyval

text \<open>The statements handed to \<^verbatim>\<open>cursor.execute\<close>, with their parameters.\<close>

datatype stmt =
    InsertTweet pyval timestamp pyval
  | InsertPost pyval timestamp pyval pyval
  | SelectTweetsSince timestamp

text \<open>
  Each \<^verbatim>\<open>print\<close> of the agents, with the values its f-string interpolates;
  consecutive prints with nothing in between are one notice.
\<close>

datatype notice =
    Generating
  | Attempting
  | PostSuccess pyval
  | PostError exn
  | NoTweetOrClient
  | Logged timestamp
  | LogError exn
  | Retrieving
  | Found nat
  | GeneratingSummary
  | WorkflowStarted
  | WorkflowFinished

text \<open>
  Everything a step can reach besides its state argument: the text-generation service
  (\<^verbatim>\<open>llm.invoke(prompt).content\<close>, a text or an exception), the Twitter client
  (\<^verbatim>\<open>None\<close> when its construction failed; \<^verbatim>\<open>create_tweet\<close> raises or returns),
  the Facebook poster, the SQLite connection (its tables, and the exception a statement
  raises when the store is unavailable), the clock and the console. The lists
  \<open>llm_calls\<close>, \<open>tweets_sent\<close>, \<open>posts_sent\<close> and \<open>statements\<close> record every outbound
  call in order.
\<close>

record world =
  llm_invoke :: "string \<Rightarrow> exn + string"
  llm_calls :: "string list"
  client :: "(pyval \<Rightarrow> exn option) option"
  tweets_sent :: "pyval list"
  poster :: "pyval \<Rightarrow> exn option"
  posts_sent :: "pyval list"
  db_error :: "exn option"
  statements :: "stmt list"
  tweets_log :: "tweet_row list"
  posts_log :: "post_row list"
  now :: timestamp
  stdout :: "notice list"

definition print :: "notice \<Rightarrow> world \<Rightarrow> world" where
  "print n w = w\<lparr>stdout := stdout w @ [n]\<rparr>"

definition llm_call :: "string \<Rightarrow> world \<Rightarrow> (exn + string) \<times> world" where
  "llm_call prompt w = (llm_invoke w prompt, w\<lparr>llm_calls := llm_calls w @ [prompt]\<rparr>)"

text \<open>\<^verbatim>\<open>INTEGER PRIMARY KEY AUTOINCREMENT\<close>: one more than the largest id in use.\<close>

definition next_id :: "nat list \<Rightarrow> nat" where
  "next_id ids = Suc (fold max ids 0)"

text \<open>
  \<^verbatim>\<open>INSERT INTO tweets_log ... VALUES (?, ?, ?)\<close> followed by the commit. The content
  column is \<^verbatim>\<open>NOT NULL\<close>. A failing store raises and leaves the table as it was.
\<close>

definition insert_tweets_log :: "pyval \<Rightarrow> timestamp \<Rightarrow> pyval \<Rightarrow> world \<Rightarrow> (exn + unit) \<times> world" where
  "insert_tweets_log c t d w =
     (let w' = w\<lparr>statements := statements w @ [InsertTweet c t d]\<rparr> in
      case db_error w of
        Some e \<Rightarrow> (Inl e, w')
      | None \<Rightarrow>
          if c = PyNone then (Inl (Raised ''IntegrityError''), w')
          else (Inr (), w'\<lparr>tweets_log := tweets_log w @
                  [\<lparr>tweet_id = next_id (map tweet_id (tweets_log w)), tweet_content = c,
                    post_datetime = t, data_summary = d\<rparr>]\<rparr>))"

definition insert_posts_log :: "pyval \<Rightarrow> timestamp \<Rightarrow> pyval \<Rightarrow> pyval \<Rightarrow> world \<Rightarrow> (exn + unit) \<times> world" where
  "insert_posts_log c t ev co w =
     (let w' = w\<lparr>statements := statements w @ [InsertPost c t ev co]\<rparr> in
      case db_error w of
        Some e \<Rightarrow> (Inl e, w')
      | None \<Rightarrow>
          if c = PyNone then (Inl (Raised ''IntegrityError''), w')
          else (Inr (), w'\<lparr>posts_log := posts_log w @
                  [\<lparr>post_id = next_id (map post_id (posts_log w)), post_content = c,
                    fb_post_datetime = t, event = ev, coordinates = co\<rparr>]\<rparr>))"

text \<open>
  \<^verbatim>\<open>SELECT tweet_content, post_datetime, data_summary FROM tweets_log
  WHERE post_datetime >= ? ORDER BY post_datetime DESC\<close>. SQL leaves the order of rows
  with equal timestamps open; the model keeps them in insertion order.
\<close>

definition select_since :: "timestamp \<Rightarrow> tweet_row list \<Rightarrow> (pyval \<times> timestamp \<times> pyval) list" where
  "select_since since rows =
     map (\<lambda>r. (tweet_content r, post_datetime r, data_summary r))
       (sort_key (\<lambda>r. - post_datetime r) (filter (\<lambda>r. since \<le> post_datetime r) rows))"

definition select_tweets_log :: "timestamp \<Rightarrow> world \<Rightarrow> (exn + (pyval \<times> timestamp \<times> pyval) list) \<times> world" where
  "select_tweets_log since w =
     (let w' = w\<lparr>statements := statements w @ [SelectTweetsSince since]\<rparr> in
      case db_error w of
        Some e \<Rightarrow> (Inl e, w')
      | None \<Rightarrow> (Inr (select_since since (tweets_log w)), w'))"

section \<open>The tweet workflow (agent.py)\<close>

definition tweet_prompt :: "pyval \<Rightarrow> string" where
  "tweet_prompt d =
     ''You are the **ocean** and you have to generate a tweet about your current condition based on the images captured by satellite and data analyzed by a machine learning model. **Only generate the tweet pretending to be the ocean and don''
     @ [CHR 0x27] @ ''t generate anything else.** Use hashtags if needed.''
     @ [CHR 0x0A] @ ''    Data: '' @ py_str d"

definition no_data_error :: string where
  "no_data_error = ''Error: No data to generate tweet.''"

text \<open>
  \<open>generate_tweet\<close> builds the prompt first, reading \<^verbatim>\<open>state['data']\<close> (a missing key
  raises there), and only then tests \<^verbatim>\<open>state.get('data')\<close>. The call to the service
  is not inside any \<^verbatim>\<open>try\<close>.
\<close>

definition generate_tweet :: "pyval state \<Rightarrow> world \<Rightarrow> (exn + pyval state option) \<times> world" where
  "generate_tweet state w0 =
     (let w1 = print Generating w0 in
      case state_item state ''data'' of
        Inl e \<Rightarrow> (Inl e, w1)
      | Inr d \<Rightarrow>
          let prompt = tweet_prompt d in
          if truthy (state_get state ''data'') then
            (case llm_call prompt w1 of
               (Inl e, w2) \<Rightarrow> (Inl e, w2)
             | (Inr content, w2) \<Rightarrow> (Inr (Some [''tweet'' \<mapsto> PyStr (strip content)]), w2))
          else (Inr (Some [''tweet'' \<mapsto> PyStr no_data_error]), w1))"

text \<open>
  \<open>post_tweet\<close> returns \<^verbatim>\<open>None\<close> on every path. After a caught exception control
  falls through to the last \<^verbatim>\<open>print\<close>.
\<close>

definition post_tweet :: "pyval state \<Rightarrow> world \<Rightarrow> (exn + pyval state option) \<times> world" where
  "post_tweet state w0 =
     (let w1 = print Attempting w0;
          tweet_content = state_get state ''tweet'' in
      case client w1 of
        None \<Rightarrow> (Inr None, print NoTweetOrClient w1)
      | Some create_tweet \<Rightarrow>
          if truthy tweet_content then
            (let w2 = w1\<lparr>tweets_sent := tweets_sent w1 @ [tweet_content]\<rparr> in
             case create_tweet tweet_content of
               None \<Rightarrow> (Inr None, print (PostSuccess tweet_content) w2)
             | Some e \<Rightarrow> (Inr None, print NoTweetOrClient (print (PostError e) w2)))
          else (Inr None, print NoTweetOrClient w1))"

definition log_tweet :: "pyval state \<Rightarrow> world \<Rightarrow> (exn + pyval state option) \<times> world" where
  "log_tweet state w0 =
     (let tweet_content = state_get state ''tweet'';
          data_summary = state_get_default state ''data'' (PyStr ''No data provided'') in
      if truthy tweet_content then
        (case insert_tweets_log tweet_content (now w0) data_summary w0 of
           (Inr u, w1) \<Rightarrow> (Inr (Some Map.empty), print (Logged (now w0)) w1)
         | (Inl e, w1) \<Rightarrow> (Inr (Some Map.empty), print (LogError e) w1))
      else (Inr (Some Map.empty), w0))"

section \<open>The workflow engine\<close>

text \<open>
  The workflows are built with LangGraph's \<^verbatim>\<open>StateGraph\<close>: \<^verbatim>\<open>add_node\<close> names a step,
  \<^verbatim>\<open>add_edge\<close> links two names, \<^verbatim>\<open>compile().invoke(initial_state)\<close> runs the graph.
  The library is not part of the repository; what the agents use of it is this: the
  run proceeds in rounds, a round runs the steps that the edges leaving the steps of
  the previous round point to (first those leaving \<^verbatim>\<open>START\<close>), every step of a round
  reads the state as it was when the round began, a returned dict is merged into the
  state key by key, a returned \<^verbatim>\<open>None\<close> changes nothing, an exception raised by a
  step ends the run and reaches the caller of \<^verbatim>\<open>invoke\<close>, a run with nothing left
  to do returns the state, and a run is cut off after 25 rounds.
  \<open>invoke\<close> also returns the names of the steps it entered, in order.
\<close>

type_synonym ('v, 'w) node = "'v state \<Rightarrow> 'w \<Rightarrow> (exn + 'v state option) \<times> 'w"

record ('v, 'w) state_graph =
  nodes :: "(string \<times> ('v, 'w) node) list"
  edges :: "(string \<times> string) list"

definition START :: string where
  "START = ''__start__''"

definition END :: string where
  "END = ''__end__''"

definition merge :: "'v state \<Rightarrow> 'v state option \<Rightarrow> 'v state" where
  "merge s u = (case u of None \<Rightarrow> s | Some m \<Rightarrow> s ++ m)"

definition targets :: "(string \<times> string) list \<Rightarrow> string list \<Rightarrow> string list" where
  "targets es active =
     remdups (filter (\<lambda>b. b \<noteq> END) (map snd (filter (\<lambda>e. fst e \<in> set active) es)))"

fun superstep :: "(string \<times> ('v, 'w) node) list \<Rightarrow> string list \<Rightarrow> 'v state \<Rightarrow> 'v state \<Rightarrow> 'w
    \<Rightarrow> (exn + 'v state) \<times> 'w \<times> string list" where
  "superstep ns [] s acc w = (Inr acc, w, [])"
| "superstep ns (n # rest) s acc w =
     (case map_of ns n of
        None \<Rightarrow> (Inl (KeyError n), w, [])
      | Some f \<Rightarrow>
          (case f s w of
             (Inl e, w') \<Rightarrow> (Inl e, w', [n])
           | (Inr u, w') \<Rightarrow>
               (case superstep ns rest s (merge acc u) w' of
                  (r, w'', tr) \<Rightarrow> (r, w'', n # tr))))"

fun pregel :: "nat \<Rightarrow> ('v, 'w) state_graph \<Rightarrow> string list \<Rightarrow> 'v state \<Rightarrow> 'w
    \<Rightarrow> (exn + 'v state) \<times> 'w \<times> string list" where
  "pregel 0 g active s w =
     (if active = [] then (Inr s, w, []) else (Inl (Raised ''GraphRecursionError''), w, []))"
| "pregel (Suc k) g active s w =
     (if active = [] then (Inr s, w, [])
      else
        (case superstep (nodes g) active s s w of
           (Inl e, w', tr) \<Rightarrow> (Inl e, w', tr)
         | (Inr s', w', tr) \<Rightarrow>
             (case pregel k g (targets (edges g) active) s' w' of
                (r, w'', tr') \<Rightarrow> (r, w'', tr @ tr'))))"

definition invoke :: "('v, 'w) state_graph \<Rightarrow> 'v state \<Rightarrow> 'w \<Rightarrow> (exn + 'v state) \<times> 'w \<times> string list" where
  "invoke g s w = pregel 25 g (targets (edges g) [START]) s w"

text \<open>The graph of agent.py and its entry point.\<close>

definition graph :: "(pyval, world) state_graph" where
  "graph =
     \<lparr>nodes = [(''generate_tweet'', generate_tweet), (''post_tweet'', post_tweet),
               (''log_tweet'', log_tweet)],
      edges = [(START, ''generate_tweet''), (''generate_tweet'', ''post_tweet''),
               (''post_tweet'', ''log_tweet''), (''log_tweet'', END)]\<rparr>"

definition run_ocean_tweet_workflow :: "pyval \<Rightarrow> world \<Rightarrow> (exn + pyval state) \<times> world \<times> string list" where
  "run_ocean_tweet_workflow satellite_data w0 =
     (let initial_state = [''data'' \<mapsto> satellite_data, ''tweet'' \<mapsto> PyNone];
          w1 = print WorkflowStarted w0 in
      case invoke graph initial_state w1 of
        (Inl e, w2, tr) \<Rightarrow> (Inl e, w2, tr)
      | (Inr final_state, w2, tr) \<Rightarrow> (Inr final_state, print WorkflowFinished w2, tr))"

section \<open>The Facebook workflow (agent_fb.py)\<close>

definition post_prompt :: "pyval \<Rightarrow> pyval \<Rightarrow> string" where
  "post_prompt ev co =
     [CHR 0x0A] @ ''    You are the **ocean**. Generate a Facebook post about your current condition ''
     @ [CHR 0x0A] @ ''    based on satellite imagery and ML analysis. Pretend to be the ocean. Use hashtags if needed.''
     @ [CHR 0x0A] @ ''    Event: '' @ py_str ev
     @ [CHR 0x0A] @ ''    Coordinates: '' @ py_str co
     @ [CHR 0x0A] @ ''    ''"

text \<open>\<open>generate_post\<close> has no test of its payload: it always calls the service.\<close>

definition generate_post :: "pyval state \<Rightarrow> world \<Rightarrow> (exn + pyval state option) \<times> world" where
  "generate_post state w0 =
     (case state_item state ''event'' of
        Inl e \<Rightarrow> (Inl e, w0)
      | Inr ev \<Rightarrow>
          (case state_item state ''coordinates'' of
             Inl e \<Rightarrow> (Inl e, w0)
           | Inr co \<Rightarrow>
               (case llm_call (post_prompt ev co) w0 of
                  (Inl e, w1) \<Rightarrow> (Inl e, w1)
                | (Inr content, w1) \<Rightarrow> (Inr (Some [''post'' \<mapsto> PyStr (strip content)]), w1))))"

definition post_facebook_node :: "pyval state \<Rightarrow> world \<Rightarrow> (exn + pyval state option) \<times> world" where
  "post_facebook_node state w0 =
     (let post_content = state_get state ''post'' in
      if truthy post_content then
        (let w1 = w0\<lparr>posts_sent := posts_sent w0 @ [post_content]\<rparr> in
         case poster w1 post_content of
           None \<Rightarrow> (Inr (Some Map.empty), print (PostSuccess post_content) w1)
         | Some e \<Rightarrow> (Inr (Some Map.empty), print (PostError e) w1))
      else (Inr (Some Map.empty), w0))"

definition log_post :: "pyval state \<Rightarrow> world \<Rightarrow> (exn + pyval state option) \<times> world" where
  "log_post state w0 =
     (let post_content = state_get state ''post'' in
      if truthy post_content then
        (case insert_posts_log post_content (now w0) (state_get state ''event'')
                (state_get state ''coordinates'') w0 of
           (Inr u, w1) \<Rightarrow> (Inr (Some Map.empty), w1)
         | (Inl e, w1) \<Rightarrow> (Inr (Some Map.empty), print (LogError e) w1))
      else (Inr (Some Map.empty), w0))"

definition fb_graph :: "(pyval, world) state_graph" where
  "fb_graph =
     \<lparr>nodes = [(''generate_post'', generate_post), (''post_facebook'', post_facebook_node),
               (''log_post'', log_post)],
      edges = [(START, ''generate_post''), (''generate_post'', ''post_facebook''),
               (''post_facebook'', ''log_post''), (''log_post'', END)]\<rparr>"

definition post_update :: "pyval \<Rightarrow> pyval \<Rightarrow> world \<Rightarrow> (exn + pyval state) \<times> world \<times> string list" where
  "post_update ev co w0 =
     invoke fb_graph [''event'' \<mapsto> ev, ''coordinates'' \<mapsto> co, ''post'' \<mapsto> PyNone] w0"

section \<open>The weekly summary workflow (summary_agent.py)\<close>

text \<open>
  The summary state holds a list of dicts under \<^verbatim>\<open>weekly_tweets\<close> and an optional
  string under \<^verbatim>\<open>summary_tweet\<close>. Each dict of the list has the three keys
  \<^verbatim>\<open>content\<close>, \<^verbatim>\<open>datetime\<close> and \<^verbatim>\<open>data_summary\<close>.
\<close>

record weekly_tweet =
  content :: pyval
  datetime :: timestamp
  summary :: pyval

datatype sval = SNone | SStr string | STweets "weekly_tweet list"

fun s_truthy :: "sval \<Rightarrow> bool" where
  "s_truthy SNone = False"
| "s_truthy (SStr s) = (s \<noteq> [])"
| "s_truthy (STweets ts) = (ts \<noteq> [])"

definition retrieve_weekly_tweets :: "sval state \<Rightarrow> world \<Rightarrow> (exn + sval state option) \<times> world" where
  "retrieve_weekly_tweets state w0 =
     (let w1 = print Retrieving w0;
          seven_days_ago = now w1 - timedelta_days 7 in
      case select_tweets_log seven_days_ago w1 of
        (Inl e, w2) \<Rightarrow> (Inl e, w2)
      | (Inr tweets, w2) \<Rightarrow>
          (let weekly_tweets =
                 map (\<lambda>(tweet_content, post_datetime, data_summary).
                        \<lparr>content = tweet_content, datetime = post_datetime, summary = data_summary\<rparr>)
                   tweets in
           (Inr (Some [''weekly_tweets'' \<mapsto> STweets weekly_tweets]),
            print (Found (length weekly_tweets)) w2)))"

definition summary_fallback :: string where
  "summary_fallback =
     [CHR 0xF0, CHR 0x9F, CHR 0x8C, CHR 0x8A]
     @ '' This week I'' @ [CHR 0x27] @ ''ve been quietly observing... No major incidents to report, but I''
     @ [CHR 0x27] @ ''m always here, always watching. #Ocean #WeeklySummary''"

definition summary_prompt :: "string \<Rightarrow> string" where
  "summary_prompt tweets_text =
     ''You are the **ocean** and you need to create a weekly summary tweet based on all the tweets you posted in the last 7 days. **Only generate the summary tweet pretending to be the ocean and don''
     @ [CHR 0x27] @ ''t generate anything else.** Keep it concise (under 280 characters), reflective, and use hashtags. Make it feel like a weekly reflection from the ocean''
     @ [CHR 0x27] @ ''s perspective.''
     @ [CHR 0x0A, CHR 0x0A] @ ''Previous tweets this week:'' @ [CHR 0x0A] @ tweets_text"

text \<open>
  \<^verbatim>\<open>state.get('weekly_tweets', [])\<close> gives the empty list for a missing key. A
  non-empty string under that key would be iterated character by character, and
  \<^verbatim>\<open>tweet['content']\<close> on a character raises \<^verbatim>\<open>TypeError\<close>.
\<close>

definition generate_summary_tweet :: "sval state \<Rightarrow> world \<Rightarrow> (exn + sval state option) \<times> world" where
  "generate_summary_tweet state w0 =
     (let w1 = print GeneratingSummary w0;
          weekly_tweets = (case state ''weekly_tweets'' of None \<Rightarrow> STweets [] | Some v \<Rightarrow> v) in
      if \<not> s_truthy weekly_tweets then
        (Inr (Some [''summary_tweet'' \<mapsto> SStr summary_fallback]), w1)
      else
        (case weekly_tweets of
           STweets ts \<Rightarrow>
             (let tweets_text = join [CHR 0x0A] (map (\<lambda>tweet. ''- '' @ py_str (content tweet)) ts);
                  prompt = summary_prompt tweets_text in
              case llm_call prompt w1 of
                (Inl e, w2) \<Rightarrow> (Inl e, w2)
              | (Inr c, w2) \<Rightarrow> (Inr (Some [''summary_tweet'' \<mapsto> SStr (strip c)]), w2))
         | _ \<Rightarrow> (Inl (TypeError ''string indices must be integers''), w1)))"

text \<open>
  \<open>post_summary_tweet\<close> hands the value under \<^verbatim>\<open>summary_tweet\<close> to
  \<^verbatim>\<open>create_tweet\<close>; in a run of the workflow that value is the string written by
  the generation step.
\<close>

fun sval_text :: "sval \<Rightarrow> pyval" where
  "sval_text (SStr s) = PyStr s"
| "sval_text _ = PyNone"

definition post_summary_tweet :: "sval state \<Rightarrow> world \<Rightarrow> (exn + sval state option) \<times> world" where
  "post_summary_tweet state w0 =
     (let w1 = print Attempting w0;
          tweet_content = (case state ''summary_tweet'' of None \<Rightarrow> SNone | Some v \<Rightarrow> v) in
      case client w1 of
        None \<Rightarrow> (Inr None, print NoTweetOrClient w1)
      | Some create_tweet \<Rightarrow>
          if s_truthy tweet_content then
            (let w2 = w1\<lparr>tweets_sent := tweets_sent w1 @ [sval_text tweet_content]\<rparr> in
             case create_tweet (sval_text tweet_content) of
               None \<Rightarrow> (Inr None, print (PostSuccess (sval_text tweet_content)) w2)
             | Some e \<Rightarrow> (Inr None, print NoTweetOrClient (print (PostError e) w2)))
          else (Inr None, print NoTweetOrClient w1))"

definition summary_graph :: "(sval, world) state_graph" where
  "summary_graph =
     \<lparr>nodes = [(''retrieve_weekly_tweets'', retrieve_weekly_tweets),
               (''generate_summary_tweet'', generate_summary_tweet),
               (''post_summary_tweet'', post_summary_tweet)],
      edges = [(START, ''retrieve_weekly_tweets''),
               (''retrieve_weekly_tweets'', ''generate_summary_tweet''),
               (''generate_summary_tweet'', ''post_summary_tweet''),
               (''post_summary_tweet'', END)]\<rparr>"

definition run_weekly_summary_workflow :: "world \<Rightarrow> (exn + sval state) \<times> world \<times> string list" where
  "run_weekly_summary_workflow w0 =
     (let initial_state = [''weekly_tweets'' \<mapsto> STweets [], ''summary_tweet'' \<mapsto> SNone];
          w1 = print WorkflowStarted w0 in
      case invoke summary_graph initial_state w1 of
        (Inl e, w2, tr) \<Rightarrow> (Inl e, w2, tr)
      | (Inr final_state, w2, tr) \<Rightarrow> (Inr final_state, print WorkflowFinished w2, tr))"

section \<open>The letter generator (marine-ai.py)\<close>

record OrganizationProfile =
  name :: string
  target_audience :: string
  tone :: string
  focus_areas :: "string list"
  call_to_action :: string
  contact_info :: string

text \<open>
  \<open>current_index\<close> is a Python float; the letter only ever formats it with
  \<^verbatim>\<open>:.1f\<close>, so its type is left open and the formatting is a parameter.
\<close>

record 'f MarineHealthData =
  current_index :: 'f
  region :: string
  md_coordinates :: string
  severity_level :: string
  urgency :: string
  recent_changes :: string
  key_issues :: "string list"

definition organizations :: "(string \<times> OrganizationProfile) list" where
  "organizations =
     [(''policy_makers'',
       \<lparr>name = ''Ocean Policy Institute'',
        target_audience = ''Government Officials, Policy Makers, Environmental Agencies'',
        tone = ''formal, evidence-based, diplomatic'',
        focus_areas = [''policy reform'', ''international cooperation'', ''regulatory frameworks'',
                       ''funding allocation''],
        call_to_action = ''implement stronger marine protection policies and increase funding'',
        contact_info = ''dheunsac@gmail.com''\<rparr>),
      (''industry_leaders'',
       \<lparr>name = ''Sustainable Marine Industries Coalition'',
        target_audience = ''Corporate Leaders, Manufacturing, Shipping, Energy Companies'',
        tone = ''business-focused, solution-oriented, collaborative'',
        focus_areas = [''sustainable practices'', ''green technology'', ''corporate responsibility'',
                       ''economic benefits''],
        call_to_action = ''adopt sustainable practices and invest in clean marine technologies'',
        contact_info = ''dheunsac@gmail.com''\<rparr>),
      (''communities'',
       \<lparr>name = ''Coastal Communities Alliance'',
        target_audience = ''Local Communities, Volunteers, Community Leaders, Residents'',
        tone = ''passionate, community-focused, inspiring'',
        focus_areas = [''grassroots action'', ''local impact'', ''community engagement'',
                       ''educational programs''],
        call_to_action = ''join local conservation efforts and engage in community marine protection'',
        contact_info = ''dheunsac@gmail.com''\<rparr>)]"

text \<open>Parsed JSON, and the two kinds of subscript the generator applies to it.\<close>

datatype json = JNull | JBool bool | JNum int | JStr string | JArr "json list"
  | JObj "(string \<times> json) list"

fun get_key :: "json \<Rightarrow> string \<Rightarrow> exn + json" where
  "get_key (JObj kvs) k = (case map_of (rev kvs) k of None \<Rightarrow> Inl (KeyError k) | Some v \<Rightarrow> Inr v)"
| "get_key (JArr xs) k = Inl (TypeError ''list indices must be integers or slices, not str'')"
| "get_key (JStr s) k = Inl (TypeError ''string indices must be integers'')"
| "get_key j k = Inl (TypeError ''object is not subscriptable'')"

fun get_first :: "json \<Rightarrow> exn + json" where
  "get_first (JArr []) = Inl IndexError"
| "get_first (JArr (x # xs)) = Inr x"
| "get_first (JStr []) = Inl IndexError"
| "get_first (JStr (c # cs)) = Inr (JStr [c])"
| "get_first (JObj kvs) = Inl (KeyError ''0'')"
| "get_first j = Inl (TypeError ''object is not subscriptable'')"

record response =
  status_code :: nat
  json_body :: "exn + json"

definition raise_for_status :: "response \<Rightarrow> exn + unit" where
  "raise_for_status r =
     (if 400 \<le> status_code r \<and> status_code r < 600 then Inl (Raised ''HTTPError'') else Inr ())"

text \<open>
  What the generator takes from outside: the HTTP call (the request differs between
  calls only in the prompt), today's date as \<^verbatim>\<open>strftime("%B %d, %Y")\<close> writes it,
  and the \<^verbatim>\<open>:.1f\<close> formatting of the index.
\<close>

record 'f letter_env =
  requests_post :: "string \<Rightarrow> exn + response"
  today :: string
  format_1f :: "'f \<Rightarrow> string"

text \<open>\<^verbatim>\<open>str.lower()\<close> and \<^verbatim>\<open>str.title()\<close>, on the letters below 128.\<close>

definition is_upper :: "char \<Rightarrow> bool" where
  "is_upper c = (65 \<le> (of_char c :: nat) \<and> (of_char c :: nat) \<le> 90)"

definition is_lower :: "char \<Rightarrow> bool" where
  "is_lower c = (97 \<le> (of_char c :: nat) \<and> (of_char c :: nat) \<le> 122)"

definition to_lower :: "char \<Rightarrow> char" where
  "to_lower c = (if is_upper c then char_of ((of_char c :: nat) + 32) else c)"

definition to_upper :: "char \<Rightarrow> char" where
  "to_upper c = (if is_lower c then char_of ((of_char c :: nat) - 32) else c)"

definition lower :: "string \<Rightarrow> string" where
  "lower s = map to_lower s"

fun title_from :: "bool \<Rightarrow> string \<Rightarrow> string" where
  "title_from previous_is_cased [] = []"
| "title_from previous_is_cased (c # cs) =
     (if is_lower c then (if previous_is_cased then c else to_upper c) # title_from True cs
      else if is_upper c then (if previous_is_cased then to_lower c else c) # title_from True cs
      else c # title_from False cs)"

definition title :: "string \<Rightarrow> string" where
  "title s = title_from False s"

definition NL :: string where
  "NL = [CHR 0x0A]"

definition letter_prompt :: "'f letter_env \<Rightarrow> OrganizationProfile \<Rightarrow> 'f MarineHealthData \<Rightarrow> string" where
  "letter_prompt env org marine_data =
     NL @ ''Write a professional advocacy letter for marine conservation from '' @ name org
        @ '' to '' @ target_audience org @ ''. ''
     @ NL @ ''Don'' @ [CHR 0x27] @ ''t use any personal names or positions. After ''
        @ [CHR 0x22] @ ''Sincerely yours,'' @ [CHR 0x22]
        @ '' just write SARgonauts and their email address.''
     @ NL
     @ NL @ ''CURRENT MARINE HEALTH DATA:''
     @ NL @ ''- SARgonauts Index: '' @ format_1f env (current_index marine_data) @ ''/100''
     @ NL @ ''- Status: '' @ severity_level marine_data
     @ NL @ ''- Region: '' @ region marine_data @ '' ('' @ md_coordinates marine_data @ '')''
     @ NL @ ''- Urgency Level: '' @ urgency marine_data
     @ NL @ ''- Recent Changes: '' @ recent_changes marine_data
     @ NL @ ''- Key Issues: '' @ join '', '' (key_issues marine_data)
     @ NL
     @ NL @ ''ORGANIZATION PROFILE:''
     @ NL @ ''- Name: '' @ name org
     @ NL @ ''- Target Audience: '' @ target_audience org
     @ NL @ ''- Tone: '' @ tone org
     @ NL @ ''- Focus Areas: '' @ join '', '' (focus_areas org)
     @ NL @ ''- Main Call to Action: '' @ call_to_action org
     @ NL @ ''- Contact: '' @ contact_info org
     @ NL
     @ NL @ ''Make it compelling, data-driven, professional, 400-600 words. Prepend the current date at the top of the letter programmatically. No need to add the word count here.''
     @ NL"

text \<open>\<^verbatim>\<open>xs[i]\<close> on a list raises \<^verbatim>\<open>IndexError\<close> out of range.\<close>

definition list_item :: "'a list \<Rightarrow> nat \<Rightarrow> exn + 'a" where
  "list_item xs i = (if i < length xs then Inr (xs ! i) else Inl IndexError)"

definition bullet :: string where
  "bullet = [CHR 0xE2, CHR 0x80, CHR 0xA2]"

definition fallback_letter :: "'f letter_env \<Rightarrow> string \<Rightarrow> 'f MarineHealthData \<Rightarrow> exn + string" where
  "fallback_letter env org_key marine_data =
     (case map_of organizations org_key of
        None \<Rightarrow> Inl (KeyError org_key)
      | Some org \<Rightarrow>
          (case list_item (focus_areas org) 0 of
             Inl e \<Rightarrow> Inl e
           | Inr f0 \<Rightarrow>
               (case list_item (focus_areas org) 1 of
                  Inl e \<Rightarrow> Inl e
                | Inr f1 \<Rightarrow>
                    (case list_item (focus_areas org) 2 of
                       Inl e \<Rightarrow> Inl e
                     | Inr f2 \<Rightarrow>
                         Inr (NL @ ''Date: '' @ today env
                           @ NL @ name org
                           @ NL @ ''Marine Conservation Advocacy Division''
                           @ NL
                           @ NL @ ''Dear '' @ target_audience org @ '',''
                           @ NL
                           @ NL @ ''Subject: Urgent Action Required - Marine Health Status Update for ''
                              @ region marine_data
                           @ NL
                           @ NL @ ''Our latest marine health assessment reveals a SARgonauts Index of ''
                              @ format_1f env (current_index marine_data) @ ''/100 for the ''
                              @ region marine_data @ '' region, indicating ''
                              @ lower (severity_level marine_data) @ '' conditions.''
                           @ NL
                           @ NL @ ''KEY ISSUES:''
                           @ NL @ join NL (map (\<lambda>issue. bullet @ '' '' @ title issue) (key_issues marine_data))
                           @ NL
                           @ NL @ ''RECOMMENDED IMMEDIATE ACTIONS:''
                           @ NL @ ''1. '' @ title f0 @ '' - Implement enhanced monitoring systems''
                           @ NL @ ''2. '' @ title f1 @ '' - Increase resource allocation''
                           @ NL @ ''3. '' @ title f2 @ '' - Establish new partnerships''
                           @ NL
                           @ NL @ ''We urge you to '' @ call_to_action org @ '' within the next 30 days.''
                           @ NL
                           @ NL @ ''Sincerely yours,''
                           @ NL @ ''SARgonauts''
                           @ NL @ contact_info org
                           @ NL)))))"

text \<open>The body of the \<^verbatim>\<open>try\<close>: any of its four statements may raise.\<close>

definition call_openrouter :: "'f letter_env \<Rightarrow> string \<Rightarrow> exn + json" where
  "call_openrouter env prompt_text =
     (case requests_post env prompt_text of
        Inl e \<Rightarrow> Inl e
      | Inr response \<Rightarrow>
          (case raise_for_status response of
             Inl e \<Rightarrow> Inl e
           | Inr u \<Rightarrow>
               (case json_body response of
                  Inl e \<Rightarrow> Inl e
                | Inr data \<Rightarrow>
                    (case get_key data ''choices'' of
                       Inl e \<Rightarrow> Inl e
                     | Inr choices \<Rightarrow>
                         (case get_first choices of
                            Inl e \<Rightarrow> Inl e
                          | Inr choice \<Rightarrow>
                              (case get_key choice ''message'' of
                                 Inl e \<Rightarrow> Inl e
                               | Inr message \<Rightarrow> get_key message ''content''))))))"

text \<open>
  The lookup of the organization and the prompt come before the \<^verbatim>\<open>try\<close>; the
  handler returns the fallback letter.
\<close>

definition generate_letter_with_grok :: "'f letter_env \<Rightarrow> string \<Rightarrow> 'f MarineHealthData \<Rightarrow> exn + json" where
  "generate_letter_with_grok env org_key marine_data =
     (case map_of organizations org_key of
        None \<Rightarrow> Inl (KeyError org_key)
      | Some org \<Rightarrow>
          (case call_openrouter env (letter_prompt env org marine_data) of
             Inr letter \<Rightarrow> Inr letter
           | Inl e \<Rightarrow>
               (case fallback_letter env org_key marine_data of
                  Inl e' \<Rightarrow> Inl e'
                | Inr letter \<Rightarrow> Inr (JStr letter))))"

section \<open>Sample worlds\<close>

definition calm_world :: world where
  "calm_world =
     \<lparr>llm_invoke = (\<lambda>prompt. Inr '' The tide is high today. #Ocean ''),
      llm_calls = [],
      client = Some (\<lambda>text. None),
      tweets_sent = [],
      poster = (\<lambda>text. None),
      posts_sent = [],
      db_error = None,
      statements = [],
      tweets_log = [],
      posts_log = [],
      now = 1758326400000000,
      stdout = []\<rparr>"

definition stormy_world :: world where
  "stormy_world =
     calm_world\<lparr>llm_invoke := (\<lambda>prompt. Inl (Raised ''quota exceeded''))\<rparr>"

definition sample_marine_data :: "int MarineHealthData" where
  "sample_marine_data =
     \<lparr>current_index = 784, region = ''Bay of Bengal'',
      md_coordinates = ''21.0000 N, 90.0000 E'', severity_level = ''Good'',
      urgency = ''MAINTAIN CURRENT EFFORTS'',
      recent_changes = ''Index changed by +0.0 points in the last 30 days'',
      key_issues = [''fish population decline in commercial zones'']\<rparr>"

definition offline_env :: "int letter_env" where
  "offline_env =
     \<lparr>requests_post = (\<lambda>body. Inl (Raised ''ConnectionError'')),
      today = ''September 20, 2025'',
      format_1f = (\<lambda>i. ''78.4'')\<rparr>"

section \<open>The steps that never raise, and the three graphs unrolled\<close>

lemma post_tweet_result: "fst (post_tweet s w) = Inr None"
  by (simp add: post_tweet_def Let_def split: option.splits)

lemma log_tweet_result: "fst (log_tweet s w) = Inr (Some Map.empty)"
  by (simp add: log_tweet_def Let_def split: prod.splits sum.splits)

lemma targets_graph:
  "targets (edges graph) [START] = [''generate_tweet'']"
  "targets (edges graph) [''generate_tweet''] = [''post_tweet'']"
  "targets (edges graph) [''post_tweet''] = [''log_tweet'']"
  "targets (edges graph) [''log_tweet''] = []"
  by (simp_all add: targets_def graph_def START_def END_def)

lemma nodes_graph:
  "map_of (nodes graph) ''generate_tweet'' = Some generate_tweet"
  "map_of (nodes graph) ''post_tweet'' = Some post_tweet"
  "map_of (nodes graph) ''log_tweet'' = Some log_tweet"
  by (simp_all add: graph_def)



lemma pregel_graph:
  "pregel (Suc (Suc (Suc (Suc k)))) graph [''generate_tweet''] s w =
     (case generate_tweet s w of
        (Inl e, w1) \<Rightarrow> (Inl e, w1, [''generate_tweet''])
      | (Inr u, w1) \<Rightarrow>
          (Inr (merge s u), snd (log_tweet (merge s u) (snd (post_tweet (merge s u) w1))),
           [''generate_tweet'', ''post_tweet'', ''log_tweet'']))"
proof -
  obtain r1 w1 where g: "generate_tweet s w = (r1, w1)" by (cases "generate_tweet s w")
  show ?thesis
  proof (cases r1)
    case (Inl e)
    then show ?thesis using g
      by (simp add: targets_graph nodes_graph)
  next
    case (Inr u)
    obtain w2 where p: "post_tweet (merge s u) w1 = (Inr None, w2)"
      using post_tweet_result[of "merge s u" w1] by (cases "post_tweet (merge s u) w1") simp
    obtain w3 where l: "log_tweet (merge s u) w2 = (Inr (Some Map.empty), w3)"
      using log_tweet_result[of "merge s u" w2] by (cases "log_tweet (merge s u) w2") simp
    have m: "merge (merge s u) None = merge s u" "merge (merge s u) (Some Map.empty) = merge s u"
      by (simp_all add: merge_def)
    show ?thesis using g Inr p l
      by (simp add: targets_graph nodes_graph m)
  qed
qed

lemma invoke_graph:
  "invoke graph s w =
     (case generate_tweet s w of
        (Inl e, w1) \<Rightarrow> (Inl e, w1, [''generate_tweet''])
      | (Inr u, w1) \<Rightarrow>
          (Inr (merge s u), snd (log_tweet (merge s u) (snd (post_tweet (merge s u) w1))),
           [''generate_tweet'', ''post_tweet'', ''log_tweet'']))"
proof -
  have n: "(25::nat) = Suc (Suc (Suc (Suc 21)))" by simp
  show ?thesis
    unfolding invoke_def targets_graph n by (rule pregel_graph)
qed


lemma generate_tweet_present:
  "generate_tweet (s(''data'' \<mapsto> d)) w =
     (if truthy d then
        (map_sum id (\<lambda>c. Some [''tweet'' \<mapsto> PyStr (strip c)]) (llm_invoke w (tweet_prompt d)),
         (print Generating w)\<lparr>llm_calls := llm_calls w @ [tweet_prompt d]\<rparr>)
      else (Inr (Some [''tweet'' \<mapsto> PyStr no_data_error]), print Generating w))"
  by (cases "llm_invoke w (tweet_prompt d)")
     (simp_all add: generate_tweet_def state_item_def state_get_def llm_call_def print_def Let_def)

text \<open>
  A state without the data key never reaches the test: building the prompt raises.
  The entry point always stores the key.
\<close>

lemma generate_tweet_missing_key:
  "s ''data'' = None \<Longrightarrow> generate_tweet s w = (Inl (KeyError ''data''), print Generating w)"
  by (simp add: generate_tweet_def state_item_def Let_def)

text \<open>
  Claim C9. In the tweet workflow the test of the payload is Python truthiness of the
  data field. With the field present, \<open>generate_tweet\<close> takes the sentinel branch
  (the sentinel string, no call to the service) exactly when the field is \<^verbatim>\<open>None\<close>
  or the empty string; for any other value it calls the service once, with the
  payload written into the prompt. In particular a payload of whitespace only is
  sent to the service, at the end of the prompt.
\<close>

theorem generate_tweet_truthiness:
  "generate_tweet (s(''data'' \<mapsto> d)) w =
     (if d = PyNone \<or> d = PyStr [] then
        (Inr (Some [''tweet'' \<mapsto> PyStr no_data_error]), print Generating w)
      else
        (map_sum id (\<lambda>c. Some [''tweet'' \<mapsto> PyStr (strip c)]) (llm_invoke w (tweet_prompt d)),
         (print Generating w)\<lparr>llm_calls := llm_calls w @ [tweet_prompt d]\<rparr>))
   \<and> (\<forall>p. p \<noteq> [] \<and> (\<forall>c \<in> set p. is_space c) \<longrightarrow>
          llm_calls (snd (generate_tweet (s(''data'' \<mapsto> PyStr p)) w))
            = llm_calls w @ [tweet_prompt (PyStr p)]
          \<and> suffix p (tweet_prompt (PyStr p)))"
proof -
  have t: "truthy d \<longleftrightarrow> \<not> (d = PyNone \<or> d = PyStr [])" by (cases d) simp_all
  have "suffix p (tweet_prompt (PyStr p))" for p
    unfolding tweet_prompt_def py_str.simps suffix_def by (metis append.assoc)
  then show ?thesis
    by (simp add: generate_tweet_present t print_def)
qed

theorem generate_tweet_truthiness_witness:
  "llm_calls (snd (generate_tweet [''data'' \<mapsto> PyStr '' '', ''tweet'' \<mapsto> PyNone] calm_world))
     = [tweet_prompt (PyStr '' '')]
   \<and> fst (generate_tweet [''data'' \<mapsto> PyStr '' '', ''tweet'' \<mapsto> PyNone] calm_world)
     = Inr (Some [''tweet'' \<mapsto> PyStr ''The tide is high today. #Ocean''])
   \<and> generate_tweet [''data'' \<mapsto> PyStr [], ''tweet'' \<mapsto> PyNone] calm_world
     = (Inr (Some [''tweet'' \<mapsto> PyStr ''Error: No data to generate tweet.'']), print Generating calm_world)"
proof -
  have a: "[''data'' \<mapsto> PyStr '' '', ''tweet'' \<mapsto> PyNone] = [''tweet'' \<mapsto> PyNone, ''data'' \<mapsto> PyStr '' '']"
    by (rule ext) simp
  have b: "[''data'' \<mapsto> PyStr [], ''tweet'' \<mapsto> PyNone] = [''tweet'' \<mapsto> PyNone, ''data'' \<mapsto> PyStr []]"
    by (rule ext) simp
  have sp: "\<forall>c \<in> set '' ''. is_space c" by (simp add: is_space_def)
  show ?thesis
    using generate_tweet_truthiness [of "[''tweet'' \<mapsto> PyNone]" "PyStr '' ''" calm_world]
          generate_tweet_truthiness [of "[''tweet'' \<mapsto> PyNone]" "PyStr []" calm_world] sp
    unfolding a b
    by (simp add: calm_world_def print_def strip_def whitespace_def is_space_def no_data_error_def)
qed


lemma post_facebook_node_result: "fst (post_facebook_node s w) = Inr (Some Map.empty)"
  by (simp add: post_facebook_node_def Let_def split: option.splits)

lemma log_post_result: "fst (log_post s w) = Inr (Some Map.empty)"
  by (simp add: log_post_def Let_def split: prod.splits sum.splits)

lemma post_summary_tweet_result: "fst (post_summary_tweet s w) = Inr None"
  by (simp add: post_summary_tweet_def Let_def split: option.splits)

lemma merge_noop: "merge s None = s" "merge s (Some Map.empty) = s"
  by (simp_all add: merge_def)

lemma targets_fb_graph:
  "targets (edges fb_graph) [START] = [''generate_post'']"
  "targets (edges fb_graph) [''generate_post''] = [''post_facebook'']"
  "targets (edges fb_graph) [''post_facebook''] = [''log_post'']"
  "targets (edges fb_graph) [''log_post''] = []"
  by (simp_all add: targets_def fb_graph_def START_def END_def)

lemma nodes_fb_graph:
  "map_of (nodes fb_graph) ''generate_post'' = Some generate_post"
  "map_of (nodes fb_graph) ''post_facebook'' = Some post_facebook_node"
  "map_of (nodes fb_graph) ''log_post'' = Some log_post"
  by (simp_all add: fb_graph_def)

lemma pregel_fb_graph:
  "pregel (Suc (Suc (Suc (Suc k)))) fb_graph [''generate_post''] s w =
     (case generate_post s w of
        (Inl e, w1) \<Rightarrow> (Inl e, w1, [''generate_post''])
      | (Inr u, w1) \<Rightarrow>
          (Inr (merge s u), snd (log_post (merge s u) (snd (post_facebook_node (merge s u) w1))),
           [''generate_post'', ''post_facebook'', ''log_post'']))"
proof -
  obtain r1 w1 where g: "generate_post s w = (r1, w1)" by (cases "generate_post s w")
  show ?thesis
  proof (cases r1)
    case (Inl e)
    then show ?thesis using g
      by (simp add: targets_fb_graph nodes_fb_graph)
  next
    case (Inr u)
    obtain w2 where p: "post_facebook_node (merge s u) w1 = (Inr (Some Map.empty), w2)"
      using post_facebook_node_result[of "merge s u" w1]
      by (cases "post_facebook_node (merge s u) w1") simp
    obtain w3 where l: "log_post (merge s u) w2 = (Inr (Some Map.empty), w3)"
      using log_post_result[of "merge s u" w2] by (cases "log_post (merge s u) w2") simp
    show ?thesis using g Inr p l
      by (simp add: targets_fb_graph nodes_fb_graph merge_noop)
  qed
qed

lemma invoke_fb_graph:
  "invoke fb_graph s w =
     (case generate_post s w of
        (Inl e, w1) \<Rightarrow> (Inl e, w1, [''generate_post''])
      | (Inr u, w1) \<Rightarrow>
          (Inr (merge s u), snd (log_post (merge s u) (snd (post_facebook_node (merge s u) w1))),
           [''generate_post'', ''post_facebook'', ''log_post'']))"
proof -
  have n: "(25::nat) = Suc (Suc (Suc (Suc 21)))" by simp
  show ?thesis
    unfolding invoke_def targets_fb_graph n by (rule pregel_fb_graph)
qed

lemma targets_summary_graph:
  "targets (edges summary_graph) [START] = [''retrieve_weekly_tweets'']"
  "targets (edges summary_graph) [''retrieve_weekly_tweets''] = [''generate_summary_tweet'']"
  "targets (edges summary_graph) [''generate_summary_tweet''] = [''post_summary_tweet'']"
  "targets (edges summary_graph) [''post_summary_tweet''] = []"
  by (simp_all add: targets_def summary_graph_def START_def END_def)

lemma nodes_summary_graph:
  "map_of (nodes summary_graph) ''retrieve_weekly_tweets'' = Some retrieve_weekly_tweets"
  "map_of (nodes summary_graph) ''generate_summary_tweet'' = Some generate_summary_tweet"
  "map_of (nodes summary_graph) ''post_summary_tweet'' = Some post_summary_tweet"
  by (simp_all add: summary_graph_def)

lemma pregel_summary_graph:
  "pregel (Suc (Suc (Suc (Suc k)))) summary_graph [''retrieve_weekly_tweets''] s w =
     (case retrieve_weekly_tweets s w of
        (Inl e, w1) \<Rightarrow> (Inl e, w1, [''retrieve_weekly_tweets''])
      | (Inr u1, w1) \<Rightarrow>
          (case generate_summary_tweet (merge s u1) w1 of
             (Inl e, w2) \<Rightarrow> (Inl e, w2, [''retrieve_weekly_tweets'', ''generate_summary_tweet''])
           | (Inr u2, w2) \<Rightarrow>
               (Inr (merge (merge s u1) u2),
                snd (post_summary_tweet (merge (merge s u1) u2) w2),
                [''retrieve_weekly_tweets'', ''generate_summary_tweet'', ''post_summary_tweet''])))"
proof -
  obtain r1 w1 where r: "retrieve_weekly_tweets s w = (r1, w1)"
    by (cases "retrieve_weekly_tweets s w")
  show ?thesis
  proof (cases r1)
    case (Inl e)
    then show ?thesis using r
      by (simp add: targets_summary_graph nodes_summary_graph)
  next
    case u1: (Inr u1)
    obtain r2 w2 where g: "generate_summary_tweet (merge s u1) w1 = (r2, w2)"
      by (cases "generate_summary_tweet (merge s u1) w1")
    show ?thesis
    proof (cases r2)
      case (Inl e)
      then show ?thesis using r u1 g
        by (simp add: targets_summary_graph nodes_summary_graph)
    next
      case (Inr u2)
      obtain w3 where p: "post_summary_tweet (merge (merge s u1) u2) w2 = (Inr None, w3)"
        using post_summary_tweet_result[of "merge (merge s u1) u2" w2]
        by (cases "post_summary_tweet (merge (merge s u1) u2) w2") simp
      show ?thesis using r u1 g Inr p
        by (simp add: targets_summary_graph nodes_summary_graph merge_noop)
    qed
  qed
qed

lemma invoke_summary_graph:
  "invoke summary_graph s w =
     (case retrieve_weekly_tweets s w of
        (Inl e, w1) \<Rightarrow> (Inl e, w1, [''retrieve_weekly_tweets''])
      | (Inr u1, w1) \<Rightarrow>
          (case generate_summary_tweet (merge s u1) w1 of
             (Inl e, w2) \<Rightarrow> (Inl e, w2, [''retrieve_weekly_tweets'', ''generate_summary_tweet''])
           | (Inr u2, w2) \<Rightarrow>
               (Inr (merge (merge s u1) u2),
                snd (post_summary_tweet (merge (merge s u1) u2) w2),
                [''retrieve_weekly_tweets'', ''generate_summary_tweet'', ''post_summary_tweet''])))"
proof -
  have n: "(25::nat) = Suc (Suc (Suc (Suc 21)))" by simp
  show ?thesis
    unfolding invoke_def targets_summary_graph n by (rule pregel_summary_graph)
qed

text \<open>
  Claim C3. The publish step never raises to its caller. It makes no delivery attempt
  when the client or the content is absent and exactly one otherwise; an exception
  thrown by the attempt is caught inside the step, which reports it on the console
  and returns normally. Nothing is retried. The Facebook variant has no client test:
  its poster always exists.
\<close>

theorem publish_never_raises:
  "fst (post_tweet s w) = Inr None
   \<and> tweets_sent (snd (post_tweet s w)) =
       tweets_sent w @ (if client w \<noteq> None \<and> truthy (state_get s ''tweet'')
                        then [state_get s ''tweet''] else [])
   \<and> (\<forall>create_tweet e.
         client w = Some create_tweet \<and> truthy (state_get s ''tweet'')
           \<and> create_tweet (state_get s ''tweet'') = Some e \<longrightarrow>
         stdout (snd (post_tweet s w)) = stdout w @ [Attempting, PostError e, NoTweetOrClient])
   \<and> fst (post_facebook_node s w) = Inr (Some Map.empty)
   \<and> posts_sent (snd (post_facebook_node s w)) =
       posts_sent w @ (if truthy (state_get s ''post'') then [state_get s ''post''] else [])
   \<and> (\<forall>e. truthy (state_get s ''post'') \<and> poster w (state_get s ''post'') = Some e \<longrightarrow>
         stdout (snd (post_facebook_node s w)) = stdout w @ [PostError e])"
proof -
  have a: "tweets_sent (snd (post_tweet s w)) =
       tweets_sent w @ (if client w \<noteq> None \<and> truthy (state_get s ''tweet'')
                        then [state_get s ''tweet''] else [])"
    by (simp add: post_tweet_def Let_def print_def split: option.splits)
  have b: "stdout (snd (post_tweet s w)) = stdout w @ [Attempting, PostError e, NoTweetOrClient]"
    if "client w = Some f" "truthy (state_get s ''tweet'')" "f (state_get s ''tweet'') = Some e"
    for f e
    using that by (simp add: post_tweet_def Let_def print_def)
  have c: "posts_sent (snd (post_facebook_node s w)) =
       posts_sent w @ (if truthy (state_get s ''post'') then [state_get s ''post''] else [])"
    by (simp add: post_facebook_node_def Let_def print_def split: option.splits)
  have d: "stdout (snd (post_facebook_node s w)) = stdout w @ [PostError e]"
    if "truthy (state_get s ''post'')" "poster w (state_get s ''post'') = Some e" for e
    using that by (simp add: post_facebook_node_def Let_def print_def)
  show ?thesis
    using a b c d post_tweet_result post_facebook_node_result by blast
qed


theorem publish_never_raises_witness:
  "fst (post_tweet [''tweet'' \<mapsto> PyStr ''hello'']
          (calm_world\<lparr>client := Some (\<lambda>text. Some (Raised ''403 Forbidden''))\<rparr>)) = Inr None
   \<and> tweets_sent (snd (post_tweet [''tweet'' \<mapsto> PyStr ''hello'']
          (calm_world\<lparr>client := Some (\<lambda>text. Some (Raised ''403 Forbidden''))\<rparr>))) = [PyStr ''hello'']
   \<and> stdout (snd (post_tweet [''tweet'' \<mapsto> PyStr ''hello'']
          (calm_world\<lparr>client := Some (\<lambda>text. Some (Raised ''403 Forbidden''))\<rparr>)))
        = [Attempting, PostError (Raised ''403 Forbidden''), NoTweetOrClient]
   \<and> tweets_sent (snd (post_tweet [''tweet'' \<mapsto> PyStr ''hello''] (calm_world\<lparr>client := None\<rparr>))) = []
   \<and> stdout (snd (post_facebook_node [''post'' \<mapsto> PyStr ''hello'']
          (calm_world\<lparr>poster := (\<lambda>text. Some (Raised ''OAuthException''))\<rparr>)))
        = [PostError (Raised ''OAuthException'')]"
  using publish_never_raises [of "[''tweet'' \<mapsto> PyStr ''hello'']"
          "calm_world\<lparr>client := Some (\<lambda>text. Some (Raised ''403 Forbidden''))\<rparr>"]
        publish_never_raises [of "[''tweet'' \<mapsto> PyStr ''hello'']" "calm_world\<lparr>client := None\<rparr>"]
        publish_never_raises [of "[''post'' \<mapsto> PyStr ''hello'']"
          "calm_world\<lparr>poster := (\<lambda>text. Some (Raised ''OAuthException''))\<rparr>"]
  by (simp add: calm_world_def state_get_def)

text \<open>
  Claim C7. The publish step never changes the run state: its update is \<^verbatim>\<open>None\<close>
  (tweet workflow) or the empty dict (Facebook workflow), and merging either leaves
  every field as it was. Once the generation step has returned its update, the state
  the run ends with is the state right after that update, so no later step changes
  the generated content or any other field.
\<close>

theorem publish_leaves_state:
  "fst (post_tweet s w) = Inr None \<and> merge s None = s
   \<and> fst (post_facebook_node s w) = Inr (Some Map.empty) \<and> merge s (Some Map.empty) = s
   \<and> (\<forall>u w1. generate_tweet s w = (Inr u, w1) \<longrightarrow> fst (invoke graph s w) = Inr (merge s u))
   \<and> (\<forall>u w1. generate_post s w = (Inr u, w1) \<longrightarrow> fst (invoke fb_graph s w) = Inr (merge s u))"
  by (simp add: post_tweet_result post_facebook_node_result merge_noop invoke_graph invoke_fb_graph)

lemma calm_generate_tweet:
  "generate_tweet [''data'' \<mapsto> PyStr ''oil spill'', ''tweet'' \<mapsto> PyNone] calm_world =
     (Inr (Some [''tweet'' \<mapsto> PyStr ''The tide is high today. #Ocean'']),
      calm_world\<lparr>llm_calls := [tweet_prompt (PyStr ''oil spill'')], stdout := [Generating]\<rparr>)"
  by (simp add: generate_tweet_def state_item_def state_get_def llm_call_def print_def Let_def
        calm_world_def strip_def whitespace_def is_space_def)

theorem publish_leaves_state_witness:
  "fst (invoke graph [''data'' \<mapsto> PyStr ''oil spill'', ''tweet'' \<mapsto> PyNone] calm_world)
     = Inr [''data'' \<mapsto> PyStr ''oil spill'', ''tweet'' \<mapsto> PyStr ''The tide is high today. #Ocean'']"
proof -
  have "merge [''data'' \<mapsto> PyStr ''oil spill'', ''tweet'' \<mapsto> PyNone]
          (Some [''tweet'' \<mapsto> PyStr ''The tide is high today. #Ocean''])
        = [''data'' \<mapsto> PyStr ''oil spill'', ''tweet'' \<mapsto> PyStr ''The tide is high today. #Ocean'']"
    by (rule ext) (simp add: merge_def)
  then show ?thesis
    using publish_leaves_state [of "[''data'' \<mapsto> PyStr ''oil spill'', ''tweet'' \<mapsto> PyNone]" calm_world]
      calm_generate_tweet
    by simp
qed


section \<open>What the steps write to the store\<close>

lemma log_tweet_statements:
  "statements (snd (log_tweet s w)) =
     statements w @ (if truthy (state_get s ''tweet'')
                     then [InsertTweet (state_get s ''tweet'') (now w)
                             (state_get_default s ''data'' (PyStr ''No data provided''))]
                     else [])"
  by (simp add: log_tweet_def insert_tweets_log_def Let_def print_def split: option.splits)

lemma log_tweet_rows:
  "tweets_log (snd (log_tweet s w)) =
     tweets_log w @ (if truthy (state_get s ''tweet'') \<and> db_error w = None
                     then [\<lparr>tweet_id = next_id (map tweet_id (tweets_log w)),
                            tweet_content = state_get s ''tweet'', post_datetime = now w,
                            data_summary = state_get_default s ''data'' (PyStr ''No data provided'')\<rparr>]
                     else [])"
  by (cases "state_get s ''tweet''")
     (simp_all add: log_tweet_def insert_tweets_log_def Let_def print_def split: option.splits)

lemma log_post_statements:
  "statements (snd (log_post s w)) =
     statements w @ (if truthy (state_get s ''post'')
                     then [InsertPost (state_get s ''post'') (now w) (state_get s ''event'')
                             (state_get s ''coordinates'')]
                     else [])"
  by (simp add: log_post_def insert_posts_log_def Let_def print_def split: option.splits)

lemma log_post_rows:
  "posts_log (snd (log_post s w)) =
     posts_log w @ (if truthy (state_get s ''post'') \<and> db_error w = None
                    then [\<lparr>post_id = next_id (map post_id (posts_log w)),
                           post_content = state_get s ''post'', fb_post_datetime = now w,
                           event = state_get s ''event'', coordinates = state_get s ''coordinates''\<rparr>]
                    else [])"
  by (cases "state_get s ''post''")
     (simp_all add: log_post_def insert_posts_log_def Let_def print_def split: option.splits)

text \<open>What each step leaves alone.\<close>

lemma generate_tweet_frame:
  "statements (snd (generate_tweet s w)) = statements w"
  "tweets_log (snd (generate_tweet s w)) = tweets_log w"
  "db_error (snd (generate_tweet s w)) = db_error w"
  "now (snd (generate_tweet s w)) = now w"
  by (simp_all add: generate_tweet_def llm_call_def print_def Let_def split: sum.splits)

lemma generate_tweet_client:
  "generate_tweet s (w\<lparr>client := c\<rparr>) = (fst (generate_tweet s w), (snd (generate_tweet s w))\<lparr>client := c\<rparr>)"
  by (simp add: generate_tweet_def llm_call_def print_def Let_def split: sum.splits)

lemma post_tweet_frame:
  "statements (snd (post_tweet s w)) = statements w"
  "tweets_log (snd (post_tweet s w)) = tweets_log w"
  "db_error (snd (post_tweet s w)) = db_error w"
  "now (snd (post_tweet s w)) = now w"
  by (simp_all add: post_tweet_def print_def Let_def split: option.splits)

lemma generate_post_frame:
  "statements (snd (generate_post s w)) = statements w"
  "posts_log (snd (generate_post s w)) = posts_log w"
  "db_error (snd (generate_post s w)) = db_error w"
  "now (snd (generate_post s w)) = now w"
  by (simp_all add: generate_post_def llm_call_def Let_def split: sum.splits)

lemma generate_post_poster:
  "generate_post s (w\<lparr>poster := p\<rparr>) = (fst (generate_post s w), (snd (generate_post s w))\<lparr>poster := p\<rparr>)"
  by (simp add: generate_post_def llm_call_def Let_def split: sum.splits)

lemma post_facebook_node_frame:
  "statements (snd (post_facebook_node s w)) = statements w"
  "posts_log (snd (post_facebook_node s w)) = posts_log w"
  "db_error (snd (post_facebook_node s w)) = db_error w"
  "now (snd (post_facebook_node s w)) = now w"
  by (simp_all add: post_facebook_node_def print_def Let_def split: option.splits)

text \<open>The store after a whole run, whatever the client does.\<close>

lemma invoke_graph_store:
  "statements (fst (snd (invoke graph s w))) =
     (case fst (generate_tweet s w) of
        Inl e \<Rightarrow> statements w
      | Inr u \<Rightarrow> statements w @
          (if truthy (state_get (merge s u) ''tweet'')
           then [InsertTweet (state_get (merge s u) ''tweet'') (now w)
                   (state_get_default (merge s u) ''data'' (PyStr ''No data provided''))]
           else []))"
  "tweets_log (fst (snd (invoke graph s w))) =
     (case fst (generate_tweet s w) of
        Inl e \<Rightarrow> tweets_log w
      | Inr u \<Rightarrow> tweets_log w @
          (if truthy (state_get (merge s u) ''tweet'') \<and> db_error w = None
           then [\<lparr>tweet_id = next_id (map tweet_id (tweets_log w)),
                  tweet_content = state_get (merge s u) ''tweet'', post_datetime = now w,
                  data_summary = state_get_default (merge s u) ''data'' (PyStr ''No data provided'')\<rparr>]
           else []))"
proof -
  obtain r1 w1 where g: "generate_tweet s w = (r1, w1)" by (cases "generate_tweet s w")
  have f: "statements w1 = statements w" "tweets_log w1 = tweets_log w"
          "db_error w1 = db_error w" "now w1 = now w"
    using generate_tweet_frame [of s w] g by simp_all
  show "statements (fst (snd (invoke graph s w))) =
     (case fst (generate_tweet s w) of
        Inl e \<Rightarrow> statements w
      | Inr u \<Rightarrow> statements w @
          (if truthy (state_get (merge s u) ''tweet'')
           then [InsertTweet (state_get (merge s u) ''tweet'') (now w)
                   (state_get_default (merge s u) ''data'' (PyStr ''No data provided''))]
           else []))"
    using g f by (cases r1) (simp_all add: invoke_graph log_tweet_statements post_tweet_frame)
  show "tweets_log (fst (snd (invoke graph s w))) =
     (case fst (generate_tweet s w) of
        Inl e \<Rightarrow> tweets_log w
      | Inr u \<Rightarrow> tweets_log w @
          (if truthy (state_get (merge s u) ''tweet'') \<and> db_error w = None
           then [\<lparr>tweet_id = next_id (map tweet_id (tweets_log w)),
                  tweet_content = state_get (merge s u) ''tweet'', post_datetime = now w,
                  data_summary = state_get_default (merge s u) ''data'' (PyStr ''No data provided'')\<rparr>]
           else []))"
    using g f by (cases r1) (simp_all add: invoke_graph log_tweet_rows post_tweet_frame)
qed

lemma invoke_fb_graph_store:
  "statements (fst (snd (invoke fb_graph s w))) =
     (case fst (generate_post s w) of
        Inl e \<Rightarrow> statements w
      | Inr u \<Rightarrow> statements w @
          (if truthy (state_get (merge s u) ''post'')
           then [InsertPost (state_get (merge s u) ''post'') (now w)
                   (state_get (merge s u) ''event'') (state_get (merge s u) ''coordinates'')]
           else []))"
  "posts_log (fst (snd (invoke fb_graph s w))) =
     (case fst (generate_post s w) of
        Inl e \<Rightarrow> posts_log w
      | Inr u \<Rightarrow> posts_log w @
          (if truthy (state_get (merge s u) ''post'') \<and> db_error w = None
           then [\<lparr>post_id = next_id (map post_id (posts_log w)),
                  post_content = state_get (merge s u) ''post'', fb_post_datetime = now w,
                  event = state_get (merge s u) ''event'',
                  coordinates = state_get (merge s u) ''coordinates''\<rparr>]
           else []))"
proof -
  obtain r1 w1 where g: "generate_post s w = (r1, w1)" by (cases "generate_post s w")
  have f: "statements w1 = statements w" "posts_log w1 = posts_log w"
          "db_error w1 = db_error w" "now w1 = now w"
    using generate_post_frame [of s w] g by simp_all
  show "statements (fst (snd (invoke fb_graph s w))) =
     (case fst (generate_post s w) of
        Inl e \<Rightarrow> statements w
      | Inr u \<Rightarrow> statements w @
          (if truthy (state_get (merge s u) ''post'')
           then [InsertPost (state_get (merge s u) ''post'') (now w)
                   (state_get (merge s u) ''event'') (state_get (merge s u) ''coordinates'')]
           else []))"
    using g f by (cases r1) (simp_all add: invoke_fb_graph log_post_statements post_facebook_node_frame)
  show "posts_log (fst (snd (invoke fb_graph s w))) =
     (case fst (generate_post s w) of
        Inl e \<Rightarrow> posts_log w
      | Inr u \<Rightarrow> posts_log w @
          (if truthy (state_get (merge s u) ''post'') \<and> db_error w = None
           then [\<lparr>post_id = next_id (map post_id (posts_log w)),
                  post_content = state_get (merge s u) ''post'', fb_post_datetime = now w,
                  event = state_get (merge s u) ''event'',
                  coordinates = state_get (merge s u) ''coordinates''\<rparr>]
           else []))"
    using g f by (cases r1) (simp_all add: invoke_fb_graph log_post_rows post_facebook_node_frame)
qed


lemma run_ocean_tweet_workflow_store:
  "statements (fst (snd (run_ocean_tweet_workflow d w))) =
     statements (fst (snd (invoke graph [''data'' \<mapsto> d, ''tweet'' \<mapsto> PyNone] (print WorkflowStarted w))))"
  "tweets_log (fst (snd (run_ocean_tweet_workflow d w))) =
     tweets_log (fst (snd (invoke graph [''data'' \<mapsto> d, ''tweet'' \<mapsto> PyNone] (print WorkflowStarted w))))"
  by (simp_all add: run_ocean_tweet_workflow_def Let_def print_def split: prod.splits sum.splits)

lemma print_client: "print n (w\<lparr>client := c\<rparr>) = (print n w)\<lparr>client := c\<rparr>"
  by (simp add: print_def)

lemma print_frame:
  "statements (print n w) = statements w" "tweets_log (print n w) = tweets_log w"
  "posts_log (print n w) = posts_log w" "db_error (print n w) = db_error w"
  "now (print n w) = now w" "llm_calls (print n w) = llm_calls w"
  by (simp_all add: print_def)

text \<open>
  Claim C1. The log step issues its \<^verbatim>\<open>INSERT\<close> (the append) if and only if the
  generated content of the state it receives is non-empty; when the store accepts the
  write the table grows by exactly that one row, and when the content is empty the
  table is untouched. What a whole run appends does not depend on the publish step:
  replacing the client (present or absent, succeeding or raising) changes neither the
  statements issued nor the rows written.
\<close>

theorem log_iff_content:
  "statements (snd (log_tweet s w)) =
     statements w @ (if truthy (state_get s ''tweet'')
                     then [InsertTweet (state_get s ''tweet'') (now w)
                             (state_get_default s ''data'' (PyStr ''No data provided''))]
                     else [])
   \<and> (db_error w = None \<longrightarrow>
        map tweet_content (tweets_log (snd (log_tweet s w))) =
          map tweet_content (tweets_log w)
            @ (if truthy (state_get s ''tweet'') then [state_get s ''tweet''] else []))
   \<and> statements (snd (log_post s w)) =
     statements w @ (if truthy (state_get s ''post'')
                     then [InsertPost (state_get s ''post'') (now w) (state_get s ''event'')
                             (state_get s ''coordinates'')]
                     else [])
   \<and> (db_error w = None \<longrightarrow>
        map post_content (posts_log (snd (log_post s w))) =
          map post_content (posts_log w)
            @ (if truthy (state_get s ''post'') then [state_get s ''post''] else []))
   \<and> (\<forall>c. statements (fst (snd (run_ocean_tweet_workflow d (w\<lparr>client := c\<rparr>))))
            = statements (fst (snd (run_ocean_tweet_workflow d w)))
          \<and> tweets_log (fst (snd (run_ocean_tweet_workflow d (w\<lparr>client := c\<rparr>))))
            = tweets_log (fst (snd (run_ocean_tweet_workflow d w))))
   \<and> (\<forall>p. statements (fst (snd (post_update ev co (w\<lparr>poster := p\<rparr>))))
            = statements (fst (snd (post_update ev co w)))
          \<and> posts_log (fst (snd (post_update ev co (w\<lparr>poster := p\<rparr>))))
            = posts_log (fst (snd (post_update ev co w))))"
proof -
  have a: "db_error w = None \<Longrightarrow>
        map tweet_content (tweets_log (snd (log_tweet s w))) =
          map tweet_content (tweets_log w)
            @ (if truthy (state_get s ''tweet'') then [state_get s ''tweet''] else [])"
    by (simp add: log_tweet_rows)
  have b: "db_error w = None \<Longrightarrow>
        map post_content (posts_log (snd (log_post s w))) =
          map post_content (posts_log w)
            @ (if truthy (state_get s ''post'') then [state_get s ''post''] else [])"
    by (simp add: log_post_rows)
  have c: "statements (fst (snd (run_ocean_tweet_workflow d (w\<lparr>client := c\<rparr>))))
            = statements (fst (snd (run_ocean_tweet_workflow d w)))
          \<and> tweets_log (fst (snd (run_ocean_tweet_workflow d (w\<lparr>client := c\<rparr>))))
            = tweets_log (fst (snd (run_ocean_tweet_workflow d w)))" for c
    by (simp add: run_ocean_tweet_workflow_store invoke_graph_store print_client
          generate_tweet_client print_frame split: sum.splits)
  have d: "statements (fst (snd (post_update ev co (w\<lparr>poster := p\<rparr>))))
            = statements (fst (snd (post_update ev co w)))
          \<and> posts_log (fst (snd (post_update ev co (w\<lparr>poster := p\<rparr>))))
            = posts_log (fst (snd (post_update ev co w)))" for p
    by (simp add: post_update_def invoke_fb_graph_store generate_post_poster split: sum.splits)
  show ?thesis
    using a b c d log_tweet_statements [of s w] log_post_statements [of s w] by blast
qed


theorem log_iff_content_witness:
  "db_error calm_world = None
   \<and> statements (snd (log_tweet [''tweet'' \<mapsto> PyStr ''hi''] calm_world))
        = [InsertTweet (PyStr ''hi'') 1758326400000000 (PyStr ''No data provided'')]
   \<and> map tweet_content (tweets_log (snd (log_tweet [''tweet'' \<mapsto> PyStr ''hi''] calm_world)))
        = [PyStr ''hi'']
   \<and> map post_content (posts_log (snd (log_post [''tweet'' \<mapsto> PyStr ''hi''] calm_world))) = []
   \<and> tweets_log (fst (snd (run_ocean_tweet_workflow (PyStr ''oil spill'') (calm_world\<lparr>client := None\<rparr>))))
        = tweets_log (fst (snd (run_ocean_tweet_workflow (PyStr ''oil spill'') calm_world)))"
  using log_iff_content [of "[''tweet'' \<mapsto> PyStr ''hi'']" calm_world "PyStr ''oil spill''"]
  by (simp add: calm_world_def state_get_def state_get_default_def)

text \<open>
  Claim C10, as stated, fails: started with \<^verbatim>\<open>None\<close> as its data, the workflow
  generates the sentinel and the log step appends a row whose context summary is NULL.
\<close>

theorem null_context_summary_counterexample:
  "map (\<lambda>r. (tweet_content r, data_summary r))
       (tweets_log (fst (snd (run_ocean_tweet_workflow PyNone calm_world))))
     = [(PyStr ''Error: No data to generate tweet.'', PyNone)]"
  by (simp add: run_ocean_tweet_workflow_store invoke_graph_store generate_tweet_def
        state_item_def state_get_def state_get_default_def merge_def print_def Let_def
        no_data_error_def calm_world_def)

text \<open>
  Claim C10, amended. The default \<^verbatim>\<open>'No data provided'\<close> is written only when the
  data key is missing from the state; when the key is present its value is written as
  it is, so the context summary of an appended row is NULL exactly when the data field
  is \<^verbatim>\<open>None\<close>. The Facebook variant writes the event and the coordinates as
  \<^verbatim>\<open>state.get\<close> returns them, NULL for a missing key or a \<^verbatim>\<open>None\<close>.
\<close>

theorem log_context_summary:
  "(truthy (state_get s ''tweet'') \<and> db_error w = None \<longrightarrow>
      tweets_log (snd (log_tweet s w)) =
        tweets_log w @
          [\<lparr>tweet_id = next_id (map tweet_id (tweets_log w)),
            tweet_content = state_get s ''tweet'', post_datetime = now w,
            data_summary = (case s ''data'' of None \<Rightarrow> PyStr ''No data provided'' | Some v \<Rightarrow> v)\<rparr>])
   \<and> (truthy (state_get s ''post'') \<and> db_error w = None \<longrightarrow>
      posts_log (snd (log_post s w)) =
        posts_log w @
          [\<lparr>post_id = next_id (map post_id (posts_log w)),
            post_content = state_get s ''post'', fb_post_datetime = now w,
            event = (case s ''event'' of None \<Rightarrow> PyNone | Some v \<Rightarrow> v),
            coordinates = (case s ''coordinates'' of None \<Rightarrow> PyNone | Some v \<Rightarrow> v)\<rparr>])"
  by (simp add: log_tweet_rows log_post_rows state_get_def state_get_default_def)

theorem log_context_summary_witness:
  "truthy (state_get [''tweet'' \<mapsto> PyStr ''hi''] ''tweet'') \<and> db_error calm_world = None
   \<and> map data_summary (tweets_log (snd (log_tweet [''tweet'' \<mapsto> PyStr ''hi''] calm_world)))
        = [PyStr ''No data provided'']
   \<and> truthy (state_get [''post'' \<mapsto> PyStr ''hi''] ''post'')
   \<and> map event (posts_log (snd (log_post [''post'' \<mapsto> PyStr ''hi''] calm_world))) = [PyNone]"
  using log_context_summary [of "[''tweet'' \<mapsto> PyStr ''hi'']" calm_world]
        log_context_summary [of "[''post'' \<mapsto> PyStr ''hi'']" calm_world]
  by (simp add: calm_world_def state_get_def)

text \<open>
  Claim C6, as stated, fails: when the generation service raises, the run stops in
  its first step and returns no final state.
\<close>

theorem run_aborts_counterexample:
  "fst (run_ocean_tweet_workflow (PyStr ''oil spill'') stormy_world) = Inl (Raised ''quota exceeded'')
   \<and> snd (snd (run_ocean_tweet_workflow (PyStr ''oil spill'') stormy_world)) = [''generate_tweet'']"
  by (simp add: run_ocean_tweet_workflow_def invoke_graph generate_tweet_def state_item_def
        state_get_def llm_call_def print_def Let_def stormy_world_def calm_world_def)

text \<open>
  Claim C6, amended. The steps of a run execute one after the other in the fixed
  order generate, publish, log (retrieve, generate, publish for the aggregator), each
  at most once, with no cycle and no branch. The publish step and the log step never
  raise: a failure inside them is caught there and the step returns an update that
  changes nothing. So every run whose generation step (and, for the aggregator,
  retrieval step) returns reaches its last step, each step having run exactly once,
  and returns a final state; a run whose generation or retrieval step raises stops
  at that step with the exception.
\<close>

theorem pipeline_linear_order:
  "(case generate_tweet s w of
      (Inl e, w1) \<Rightarrow> invoke graph s w = (Inl e, w1, [''generate_tweet''])
    | (Inr u, w1) \<Rightarrow>
        fst (invoke graph s w) = Inr (merge s u)
        \<and> snd (snd (invoke graph s w)) = [''generate_tweet'', ''post_tweet'', ''log_tweet''])
   \<and> (case generate_post s w of
      (Inl e, w1) \<Rightarrow> invoke fb_graph s w = (Inl e, w1, [''generate_post''])
    | (Inr u, w1) \<Rightarrow>
        fst (invoke fb_graph s w) = Inr (merge s u)
        \<and> snd (snd (invoke fb_graph s w)) = [''generate_post'', ''post_facebook'', ''log_post''])
   \<and> (case retrieve_weekly_tweets ss w of
      (Inl e, w1) \<Rightarrow> invoke summary_graph ss w = (Inl e, w1, [''retrieve_weekly_tweets''])
    | (Inr u1, w1) \<Rightarrow>
        (case generate_summary_tweet (merge ss u1) w1 of
           (Inl e, w2) \<Rightarrow>
             invoke summary_graph ss w =
               (Inl e, w2, [''retrieve_weekly_tweets'', ''generate_summary_tweet''])
         | (Inr u2, w2) \<Rightarrow>
             fst (invoke summary_graph ss w) = Inr (merge (merge ss u1) u2)
             \<and> snd (snd (invoke summary_graph ss w)) =
                 [''retrieve_weekly_tweets'', ''generate_summary_tweet'', ''post_summary_tweet'']))
   \<and> fst (post_tweet s w) = Inr None
   \<and> fst (log_tweet s w) = Inr (Some Map.empty)
   \<and> fst (post_facebook_node s w) = Inr (Some Map.empty)
   \<and> fst (log_post s w) = Inr (Some Map.empty)
   \<and> fst (post_summary_tweet ss w) = Inr None"
  by (simp add: invoke_graph invoke_fb_graph invoke_summary_graph post_tweet_result
        log_tweet_result post_facebook_node_result log_post_result post_summary_tweet_result
        split: prod.splits sum.splits)

theorem pipeline_linear_order_witness:
  "snd (snd (invoke graph [''data'' \<mapsto> PyStr ''oil spill'', ''tweet'' \<mapsto> PyNone] calm_world))
     = [''generate_tweet'', ''post_tweet'', ''log_tweet'']
   \<and> fst (log_tweet [''tweet'' \<mapsto> PyStr ''hi'']
            (calm_world\<lparr>db_error := Some (Raised ''database is locked'')\<rparr>)) = Inr (Some Map.empty)
   \<and> tweets_log (snd (log_tweet [''tweet'' \<mapsto> PyStr ''hi'']
            (calm_world\<lparr>db_error := Some (Raised ''database is locked'')\<rparr>))) = []"
  using pipeline_linear_order [of "[''data'' \<mapsto> PyStr ''oil spill'', ''tweet'' \<mapsto> PyNone]" calm_world]
        pipeline_linear_order [of "[''tweet'' \<mapsto> PyStr ''hi'']"
          "calm_world\<lparr>db_error := Some (Raised ''database is locked'')\<rparr>"]
        calm_generate_tweet
  by (simp add: log_tweet_rows calm_world_def)

text \<open>
  Claim C2, as stated, fails: the Facebook generation step has no short-circuit. With
  an empty event and empty coordinates it still calls the service and returns what
  the service wrote, not a sentinel.
\<close>

theorem generate_post_counterexample:
  "llm_calls (snd (generate_post [''event'' \<mapsto> PyStr [], ''coordinates'' \<mapsto> PyStr [], ''post'' \<mapsto> PyNone]
                     calm_world)) = [post_prompt (PyStr []) (PyStr [])]
   \<and> fst (generate_post [''event'' \<mapsto> PyStr [], ''coordinates'' \<mapsto> PyStr [], ''post'' \<mapsto> PyNone]
            calm_world) = Inr (Some [''post'' \<mapsto> PyStr ''The tide is high today. #Ocean''])"
  by (simp add: generate_post_def state_item_def llm_call_def calm_world_def strip_def whitespace_def is_space_def)

text \<open>
  Claim C2, amended. In the tweet workflow, if the data field is \<^verbatim>\<open>None\<close> or the
  empty string the generation step makes no call to the service and returns the
  sentinel \<^verbatim>\<open>Error: No data to generate tweet.\<close>; otherwise it makes exactly one
  call. The Facebook generation step has no such test: it makes exactly one call for
  every event and coordinates, empty or not.
\<close>

theorem generation_short_circuit:
  "(\<not> truthy d \<longrightarrow>
      fst (generate_tweet (s(''data'' \<mapsto> d)) w)
        = Inr (Some [''tweet'' \<mapsto> PyStr ''Error: No data to generate tweet.''])
      \<and> llm_calls (snd (generate_tweet (s(''data'' \<mapsto> d)) w)) = llm_calls w)
   \<and> (truthy d \<longrightarrow>
      llm_calls (snd (generate_tweet (s(''data'' \<mapsto> d)) w)) = llm_calls w @ [tweet_prompt d])
   \<and> llm_calls (snd (generate_post (s(''event'' \<mapsto> ev, ''coordinates'' \<mapsto> co)) w))
        = llm_calls w @ [post_prompt ev co]"
proof -
  have "llm_calls (snd (generate_post (s(''event'' \<mapsto> ev, ''coordinates'' \<mapsto> co)) w))
        = llm_calls w @ [post_prompt ev co]"
    by (cases "llm_invoke w (post_prompt ev co)")
       (simp_all add: generate_post_def state_item_def llm_call_def)
  then show ?thesis
    by (simp add: generate_tweet_present print_def no_data_error_def)
qed

theorem generation_short_circuit_witness:
  "\<not> truthy PyNone \<and> truthy (PyStr ''oil spill'')
   \<and> fst (generate_tweet [''data'' \<mapsto> PyNone] calm_world)
       = Inr (Some [''tweet'' \<mapsto> PyStr ''Error: No data to generate tweet.''])
   \<and> llm_calls (snd (generate_tweet [''data'' \<mapsto> PyNone] calm_world)) = []
   \<and> llm_calls (snd (generate_tweet [''data'' \<mapsto> PyStr ''oil spill''] calm_world))
       = [tweet_prompt (PyStr ''oil spill'')]"
  using generation_short_circuit [of PyNone Map.empty calm_world]
        generation_short_circuit [of "PyStr ''oil spill''" Map.empty calm_world]
  by (simp add: calm_world_def)


section \<open>The aggregator\<close>

lemma sublist_join: "x \<in> set xs \<Longrightarrow> sublist x (join sep xs)"
proof (induction sep xs rule: join.induct)
  case (1 sep)
  then show ?case by simp
next
  case (2 sep x')
  then show ?case by simp
next
  case (3 sep a b bs)
  show ?case
  proof (cases "x = a")
    case True
    then show ?thesis by simp
  next
    case False
    with 3 have "sublist x (join sep (b # bs))" by simp
    then obtain ps ss where "join sep (b # bs) = ps @ x @ ss" by (auto simp: sublist_def)
    then have "join sep (a # b # bs) = (a @ sep @ ps) @ x @ ss" by simp
    then show ?thesis unfolding sublist_def by blast
  qed
qed

lemma sublist_trans: "sublist xs ys \<Longrightarrow> sublist ys zs \<Longrightarrow> sublist xs zs"
  unfolding sublist_def by (metis append.assoc)

lemma content_in_summary_prompt:
  assumes "t \<in> set ts"
  shows "sublist (py_str (content t))
           (summary_prompt (join [CHR 0x0A] (map (\<lambda>tweet. ''- '' @ py_str (content tweet)) ts)))"
proof -
  let ?lines = "map (\<lambda>tweet. ''- '' @ py_str (content tweet)) ts"
  have "''- '' @ py_str (content t) \<in> set ?lines" using assms by auto
  then have "sublist (''- '' @ py_str (content t)) (join [CHR 0x0A] ?lines)" by (rule sublist_join)
  moreover have "sublist (py_str (content t)) (''- '' @ py_str (content t))"
    by (rule sublist_append_leftI)
  ultimately have "sublist (py_str (content t)) (join [CHR 0x0A] ?lines)"
    by (blast intro: sublist_trans)
  moreover have "sublist (join [CHR 0x0A] ?lines) (summary_prompt (join [CHR 0x0A] ?lines))"
    unfolding summary_prompt_def by (rule suffix_imp_sublist) (simp add: suffix_def)
  ultimately show ?thesis by (blast intro: sublist_trans)
qed

lemma generate_summary_tweet_empty:
  "generate_summary_tweet (s(''weekly_tweets'' \<mapsto> STweets [])) w =
     (Inr (Some [''summary_tweet'' \<mapsto> SStr summary_fallback]), print GeneratingSummary w)"
  by (simp add: generate_summary_tweet_def Let_def)

lemma generate_summary_tweet_calls:
  "ts \<noteq> [] \<Longrightarrow>
   llm_calls (snd (generate_summary_tweet (s(''weekly_tweets'' \<mapsto> STweets ts)) w)) =
     llm_calls w @ [summary_prompt (join [CHR 0x0A] (map (\<lambda>tweet. ''- '' @ py_str (content tweet)) ts))]"
  by (simp add: generate_summary_tweet_def llm_call_def print_def Let_def split: sum.splits)

text \<open>
  Claim C4. With an empty list of retrieved records the aggregator's generation step
  returns the fixed fallback message and makes no call to the service. With one record
  or more it makes exactly one call, and the text of every retrieved record occurs in
  the prompt of that call.
\<close>

theorem summary_generation:
  "generate_summary_tweet (s(''weekly_tweets'' \<mapsto> STweets [])) w =
     (Inr (Some [''summary_tweet'' \<mapsto> SStr summary_fallback]), print GeneratingSummary w)
   \<and> llm_calls (snd (generate_summary_tweet (s(''weekly_tweets'' \<mapsto> STweets [])) w)) = llm_calls w
   \<and> (ts \<noteq> [] \<longrightarrow>
        llm_calls (snd (generate_summary_tweet (s(''weekly_tweets'' \<mapsto> STweets ts)) w)) =
          llm_calls w @
            [summary_prompt (join [CHR 0x0A] (map (\<lambda>tweet. ''- '' @ py_str (content tweet)) ts))]
        \<and> (\<forall>t \<in> set ts.
              sublist (py_str (content t))
                (summary_prompt (join [CHR 0x0A] (map (\<lambda>tweet. ''- '' @ py_str (content tweet)) ts)))))"
  using content_in_summary_prompt [of _ ts]
  by (simp add: generate_summary_tweet_empty generate_summary_tweet_calls print_def)


theorem summary_generation_witness:
  "[\<lparr>content = PyStr ''Oil on my skin'', datetime = 2, summary = PyNone\<rparr>,
    \<lparr>content = PyStr ''Calm now'', datetime = 1, summary = PyNone\<rparr>] \<noteq> []
   \<and> llm_calls (snd (generate_summary_tweet
         [''weekly_tweets'' \<mapsto> STweets
            [\<lparr>content = PyStr ''Oil on my skin'', datetime = 2, summary = PyNone\<rparr>,
             \<lparr>content = PyStr ''Calm now'', datetime = 1, summary = PyNone\<rparr>]] calm_world))
       = [summary_prompt (''- Oil on my skin'' @ [CHR 0x0A] @ ''- Calm now'')]
   \<and> sublist ''Oil on my skin'' (summary_prompt (''- Oil on my skin'' @ [CHR 0x0A] @ ''- Calm now''))
   \<and> sublist ''Calm now'' (summary_prompt (''- Oil on my skin'' @ [CHR 0x0A] @ ''- Calm now''))
   \<and> llm_calls (snd (generate_summary_tweet [''weekly_tweets'' \<mapsto> STweets []] calm_world)) = []"
  using summary_generation [of Map.empty calm_world
          "[\<lparr>content = PyStr ''Oil on my skin'', datetime = 2, summary = PyNone\<rparr>,
            \<lparr>content = PyStr ''Calm now'', datetime = 1, summary = PyNone\<rparr>]"]
  by (simp add: calm_world_def print_def)

section \<open>The log store query\<close>

lemma set_select_since:
  "set (select_since since rows) =
     (\<lambda>r. (tweet_content r, post_datetime r, data_summary r)) ` {r \<in> set rows. since \<le> post_datetime r}"
  by (simp add: select_since_def)

lemma mset_select_since:
  "mset (select_since since rows) =
     image_mset (\<lambda>r. (tweet_content r, post_datetime r, data_summary r))
       (filter_mset (\<lambda>r. since \<le> post_datetime r) (mset rows))"
  by (simp add: select_since_def)

lemma select_since_newest_first:
  "sorted_wrt (\<lambda>a b. fst (snd b) \<le> fst (snd a)) (select_since since rows)"
proof -
  let ?xs = "sort_key (\<lambda>r. - post_datetime r) (filter (\<lambda>r. since \<le> post_datetime r) rows)"
  have "sorted (map (\<lambda>r. - post_datetime r) ?xs)" by (rule sorted_sort_key)
  then have "sorted_wrt (\<lambda>x y. post_datetime y \<le> post_datetime x) ?xs"
    by (simp add: sorted_wrt_map)
  then show ?thesis
    by (simp add: select_since_def sorted_wrt_map)
qed

lemma retrieve_weekly_tweets_statements:
  "statements (snd (retrieve_weekly_tweets ss w)) =
     statements w @ [SelectTweetsSince (now w - 7 * 86400000000)]"
  by (simp add: retrieve_weekly_tweets_def select_tweets_log_def timedelta_days_def print_def
        Let_def split: option.splits)

lemma retrieve_weekly_tweets_result:
  "db_error w = None \<Longrightarrow>
   fst (retrieve_weekly_tweets ss w) =
     Inr (Some [''weekly_tweets'' \<mapsto>
       STweets (map (\<lambda>(c, t, d). \<lparr>content = c, datetime = t, summary = d\<rparr>)
                  (select_since (now w - 7 * 86400000000) (tweets_log w)))])"
  by (simp add: retrieve_weekly_tweets_def select_tweets_log_def timedelta_days_def print_def Let_def)

text \<open>
  Claim C5. For every table and every cutoff the query returns exactly the records
  whose timestamp is at or after the cutoff, newest first. A record that the log step
  has just appended is therefore returned by a query whose cutoff is at or before the
  record's timestamp. The aggregator queries with the cutoff seven days before now.
\<close>

theorem query_since:
  "mset (select_since since rows) =
     image_mset (\<lambda>r. (tweet_content r, post_datetime r, data_summary r))
       (filter_mset (\<lambda>r. since \<le> post_datetime r) (mset rows))
   \<and> sorted_wrt (\<lambda>a b. fst (snd b) \<le> fst (snd a)) (select_since since rows)
   \<and> (truthy (state_get s ''tweet'') \<and> db_error w = None \<and> since \<le> now w \<longrightarrow>
        (state_get s ''tweet'', now w, state_get_default s ''data'' (PyStr ''No data provided''))
          \<in> set (select_since since (tweets_log (snd (log_tweet s w)))))
   \<and> statements (snd (retrieve_weekly_tweets ss w)) =
        statements w @ [SelectTweetsSince (now w - 7 * 86400000000)]
   \<and> (db_error w = None \<longrightarrow>
        fst (retrieve_weekly_tweets ss w) =
          Inr (Some [''weekly_tweets'' \<mapsto>
            STweets (map (\<lambda>(c, t, d). \<lparr>content = c, datetime = t, summary = d\<rparr>)
                       (select_since (now w - 7 * 86400000000) (tweets_log w)))]))"
proof -
  have "(state_get s ''tweet'', now w, state_get_default s ''data'' (PyStr ''No data provided''))
          \<in> set (select_since since (tweets_log (snd (log_tweet s w))))"
    if "truthy (state_get s ''tweet'')" "db_error w = None" "since \<le> now w"
    using that by (force simp: set_select_since log_tweet_rows image_iff)
  then show ?thesis
    using mset_select_since select_since_newest_first retrieve_weekly_tweets_statements
      retrieve_weekly_tweets_result
    by blast
qed


theorem query_since_witness:
  "truthy (state_get [''tweet'' \<mapsto> PyStr ''hi''] ''tweet'') \<and> db_error calm_world = None
   \<and> (1758326399000000 :: int) \<le> now calm_world
   \<and> (PyStr ''hi'', 1758326400000000, PyStr ''No data provided'')
        \<in> set (select_since 1758326399000000
                 (tweets_log (snd (log_tweet [''tweet'' \<mapsto> PyStr ''hi''] calm_world))))
   \<and> fst (retrieve_weekly_tweets Map.empty calm_world) = Inr (Some [''weekly_tweets'' \<mapsto> STweets []])"
  using query_since [of 1758326399000000 "[]" "[''tweet'' \<mapsto> PyStr ''hi'']" calm_world Map.empty]
  by (simp add: calm_world_def state_get_def state_get_default_def select_since_def)


section \<open>A failing generation service\<close>

lemma generate_tweet_raises:
  assumes "truthy d" "llm_invoke w (tweet_prompt d) = Inl e"
  shows "generate_tweet (s(''data'' \<mapsto> d)) w =
           (Inl e, (print Generating w)\<lparr>llm_calls := llm_calls w @ [tweet_prompt d]\<rparr>)"
  using assms by (simp add: generate_tweet_present)

lemma run_ocean_tweet_workflow_raises:
  assumes "truthy d" "llm_invoke w (tweet_prompt d) = Inl e"
  shows "fst (run_ocean_tweet_workflow d w) = Inl e"
    and "snd (snd (run_ocean_tweet_workflow d w)) = [''generate_tweet'']"
proof -
  have i: "[''data'' \<mapsto> d, ''tweet'' \<mapsto> PyNone] = [''tweet'' \<mapsto> PyNone, ''data'' \<mapsto> d]"
    by (rule ext) simp
  have l: "llm_invoke (print WorkflowStarted w) (tweet_prompt d) = Inl e"
    using assms(2) by (simp add: print_def)
  have g: "fst (generate_tweet [''data'' \<mapsto> d, ''tweet'' \<mapsto> PyNone] (print WorkflowStarted w)) = Inl e"
    unfolding i using generate_tweet_raises [OF assms(1) l] by simp
  obtain w1 where "generate_tweet [''data'' \<mapsto> d, ''tweet'' \<mapsto> PyNone] (print WorkflowStarted w) = (Inl e, w1)"
    using g by (cases "generate_tweet [''data'' \<mapsto> d, ''tweet'' \<mapsto> PyNone] (print WorkflowStarted w)") simp
  then show "fst (run_ocean_tweet_workflow d w) = Inl e"
    and "snd (snd (run_ocean_tweet_workflow d w)) = [''generate_tweet'']"
    by (simp_all add: run_ocean_tweet_workflow_def invoke_graph Let_def)
qed

text \<open>Every organization of the generator has its first three focus areas.\<close>

lemma organizations_focus_areas:
  assumes "map_of organizations org_key = Some org"
  shows "3 < length (focus_areas org)"
proof -
  have "org_key = ''policy_makers'' \<or> org_key = ''industry_leaders'' \<or> org_key = ''communities''"
    using assms by (simp add: organizations_def split: if_splits)
  then show ?thesis
    using assms by (auto simp: organizations_def)
qed

lemma fallback_letter_text:
  assumes "map_of organizations org_key = Some org"
  shows "fallback_letter env org_key marine_data =
    Inr (NL @ ''Date: '' @ today env
      @ NL @ name org
      @ NL @ ''Marine Conservation Advocacy Division''
      @ NL
      @ NL @ ''Dear '' @ target_audience org @ '',''
      @ NL
      @ NL @ ''Subject: Urgent Action Required - Marine Health Status Update for ''
         @ region marine_data
      @ NL
      @ NL @ ''Our latest marine health assessment reveals a SARgonauts Index of ''
         @ format_1f env (current_index marine_data) @ ''/100 for the ''
         @ region marine_data @ '' region, indicating ''
         @ lower (severity_level marine_data) @ '' conditions.''
      @ NL
      @ NL @ ''KEY ISSUES:''
      @ NL @ join NL (map (\<lambda>issue. bullet @ '' '' @ title issue) (key_issues marine_data))
      @ NL
      @ NL @ ''RECOMMENDED IMMEDIATE ACTIONS:''
      @ NL @ ''1. '' @ title (focus_areas org ! 0) @ '' - Implement enhanced monitoring systems''
      @ NL @ ''2. '' @ title (focus_areas org ! 1) @ '' - Increase resource allocation''
      @ NL @ ''3. '' @ title (focus_areas org ! 2) @ '' - Establish new partnerships''
      @ NL
      @ NL @ ''We urge you to '' @ call_to_action org @ '' within the next 30 days.''
      @ NL
      @ NL @ ''Sincerely yours,''
      @ NL @ ''SARgonauts''
      @ NL @ contact_info org
      @ NL)"
proof -
  have "3 < length (focus_areas org)" by (rule organizations_focus_areas [OF assms])
  then have "0 < length (focus_areas org)" "1 < length (focus_areas org)"
    "2 < length (focus_areas org)" by auto
  then show ?thesis
    using assms by (simp add: fallback_letter_def list_item_def)
qed


lemma sublist_skip: "sublist x r \<Longrightarrow> sublist x (p @ r)"
  unfolding sublist_def by (metis append.assoc)

text \<open>What of the profile and of the marine data the letter template carries.\<close>

lemma fallback_letter_content:
  fixes org :: OrganizationProfile and marine_data :: "'f MarineHealthData" and env :: "'f letter_env"
  assumes "letter =
     NL @ ''Date: '' @ today env
      @ NL @ name org
      @ NL @ ''Marine Conservation Advocacy Division''
      @ NL
      @ NL @ ''Dear '' @ target_audience org @ '',''
      @ NL
      @ NL @ ''Subject: Urgent Action Required - Marine Health Status Update for ''
         @ region marine_data
      @ NL
      @ NL @ ''Our latest marine health assessment reveals a SARgonauts Index of ''
         @ format_1f env (current_index marine_data) @ ''/100 for the ''
         @ region marine_data @ '' region, indicating ''
         @ lower (severity_level marine_data) @ '' conditions.''
      @ NL
      @ NL @ ''KEY ISSUES:''
      @ NL @ join NL (map (\<lambda>issue. bullet @ '' '' @ title issue) (key_issues marine_data))
      @ NL
      @ NL @ ''RECOMMENDED IMMEDIATE ACTIONS:''
      @ NL @ ''1. '' @ title (focus_areas org ! 0) @ '' - Implement enhanced monitoring systems''
      @ NL @ ''2. '' @ title (focus_areas org ! 1) @ '' - Increase resource allocation''
      @ NL @ ''3. '' @ title (focus_areas org ! 2) @ '' - Establish new partnerships''
      @ NL
      @ NL @ ''We urge you to '' @ call_to_action org @ '' within the next 30 days.''
      @ NL
      @ NL @ ''Sincerely yours,''
      @ NL @ ''SARgonauts''
      @ NL @ contact_info org
      @ NL"
  shows "sublist (today env) letter
          \<and> sublist (name org) letter
          \<and> sublist (target_audience org) letter
          \<and> sublist (region marine_data) letter
          \<and> sublist (format_1f env (current_index marine_data)) letter
          \<and> sublist (lower (severity_level marine_data)) letter
          \<and> (\<forall>issue \<in> set (key_issues marine_data). sublist (title issue) letter)
          \<and> sublist (title (focus_areas org ! 0)) letter
          \<and> sublist (title (focus_areas org ! 1)) letter
          \<and> sublist (title (focus_areas org ! 2)) letter
          \<and> sublist (call_to_action org) letter
          \<and> sublist (contact_info org) letter"
proof -
  let ?issues = "join NL (map (\<lambda>issue. bullet @ '' '' @ title issue) (key_issues marine_data))"
  have j: "sublist ?issues letter"
    unfolding assms by (rule sublist_append_rightI | rule sublist_skip)+
  have i: "sublist (title issue) letter" if "issue \<in> set (key_issues marine_data)" for issue
  proof -
    have "bullet @ '' '' @ title issue
            \<in> set (map (\<lambda>issue. bullet @ '' '' @ title issue) (key_issues marine_data))"
      using that by auto
    then have "sublist (bullet @ '' '' @ title issue) ?issues" by (rule sublist_join)
    moreover have "sublist (title issue) (bullet @ '' '' @ title issue)"
      by (rule sublist_append_leftI | rule sublist_skip)+
    ultimately show ?thesis using j by (blast intro: sublist_trans)
  qed
  have "sublist (today env) letter"
    unfolding assms by (rule sublist_append_rightI | rule sublist_skip)+
  moreover have "sublist (name org) letter"
    unfolding assms by (rule sublist_append_rightI | rule sublist_skip)+
  moreover have "sublist (target_audience org) letter"
    unfolding assms by (rule sublist_append_rightI | rule sublist_skip)+
  moreover have "sublist (region marine_data) letter"
    unfolding assms by (rule sublist_append_rightI | rule sublist_skip)+
  moreover have "sublist (format_1f env (current_index marine_data)) letter"
    unfolding assms by (rule sublist_append_rightI | rule sublist_skip)+
  moreover have "sublist (lower (severity_level marine_data)) letter"
    unfolding assms by (rule sublist_append_rightI | rule sublist_skip)+
  moreover have "sublist (title (focus_areas org ! 0)) letter"
    unfolding assms by (rule sublist_append_rightI | rule sublist_skip)+
  moreover have "sublist (title (focus_areas org ! 1)) letter"
    unfolding assms by (rule sublist_append_rightI | rule sublist_skip)+
  moreover have "sublist (title (focus_areas org ! 2)) letter"
    unfolding assms by (rule sublist_append_rightI | rule sublist_skip)+
  moreover have "sublist (call_to_action org) letter"
    unfolding assms by (rule sublist_append_rightI | rule sublist_skip)+
  moreover have "sublist (contact_info org) letter"
    unfolding assms by (rule sublist_append_rightI | rule sublist_skip)+
  ultimately show ?thesis using i by blast
qed

lemma generate_letter_with_grok_fallback:
  assumes "map_of organizations org_key = Some org"
    and "call_openrouter env (letter_prompt env org marine_data) = Inl e"
  shows "generate_letter_with_grok env org_key marine_data =
           map_sum id JStr (fallback_letter env org_key marine_data)"
  using assms by (simp add: generate_letter_with_grok_def split: sum.splits)

lemma call_openrouter_raises:
  "requests_post env p = Inl e \<Longrightarrow> call_openrouter env p = Inl e"
  "requests_post env p = Inr r \<Longrightarrow> raise_for_status r = Inl e \<Longrightarrow> call_openrouter env p = Inl e"
  "requests_post env p = Inr r \<Longrightarrow> raise_for_status r = Inr u \<Longrightarrow> json_body r = Inl e
     \<Longrightarrow> call_openrouter env p = Inl e"
  by (simp_all add: call_openrouter_def)


text \<open>
  Claim C8. When the generation service raises, the tweet workflow's generation step
  lets the exception through and the run ends there, with the exception. The letter
  generator wraps its service call in a \<^verbatim>\<open>try\<close>: whatever is raised by the request,
  by the status check, by the decoding of the body or by reading the content out of it
  is caught, and the fallback letter is returned instead. That letter is the fixed
  template filled from the organization profile (name, audience, the first three focus
  areas, call to action, contact) and the marine data (region, index, severity, key
  issues) under today's date; it does not depend on the exception.
\<close>

theorem generation_failure_asymmetry:
  "(truthy d \<and> llm_invoke w (tweet_prompt d) = Inl e \<longrightarrow>
      fst (generate_tweet (s(''data'' \<mapsto> d)) w) = Inl e
      \<and> fst (run_ocean_tweet_workflow d w) = Inl e
      \<and> snd (snd (run_ocean_tweet_workflow d w)) = [''generate_tweet''])
   \<and> (map_of organizations org_key = Some org
        \<and> call_openrouter env (letter_prompt env org marine_data) = Inl e' \<longrightarrow>
      (\<exists>letter.
         letter =
     NL @ ''Date: '' @ today env
      @ NL @ name org
      @ NL @ ''Marine Conservation Advocacy Division''
      @ NL
      @ NL @ ''Dear '' @ target_audience org @ '',''
      @ NL
      @ NL @ ''Subject: Urgent Action Required - Marine Health Status Update for ''
         @ region marine_data
      @ NL
      @ NL @ ''Our latest marine health assessment reveals a SARgonauts Index of ''
         @ format_1f env (current_index marine_data) @ ''/100 for the ''
         @ region marine_data @ '' region, indicating ''
         @ lower (severity_level marine_data) @ '' conditions.''
      @ NL
      @ NL @ ''KEY ISSUES:''
      @ NL @ join NL (map (\<lambda>issue. bullet @ '' '' @ title issue) (key_issues marine_data))
      @ NL
      @ NL @ ''RECOMMENDED IMMEDIATE ACTIONS:''
      @ NL @ ''1. '' @ title (focus_areas org ! 0) @ '' - Implement enhanced monitoring systems''
      @ NL @ ''2. '' @ title (focus_areas org ! 1) @ '' - Increase resource allocation''
      @ NL @ ''3. '' @ title (focus_areas org ! 2) @ '' - Establish new partnerships''
      @ NL
      @ NL @ ''We urge you to '' @ call_to_action org @ '' within the next 30 days.''
      @ NL
      @ NL @ ''Sincerely yours,''
      @ NL @ ''SARgonauts''
      @ NL @ contact_info org
      @ NL
         \<and> fallback_letter env org_key marine_data = Inr letter
         \<and> generate_letter_with_grok env org_key marine_data = Inr (JStr letter)
         \<and> sublist (today env) letter
         \<and> sublist (name org) letter
         \<and> sublist (target_audience org) letter
         \<and> sublist (region marine_data) letter
         \<and> sublist (format_1f env (current_index marine_data)) letter
         \<and> sublist (lower (severity_level marine_data)) letter
         \<and> (\<forall>issue \<in> set (key_issues marine_data). sublist (title issue) letter)
         \<and> sublist (title (focus_areas org ! 0)) letter
         \<and> sublist (title (focus_areas org ! 1)) letter
         \<and> sublist (title (focus_areas org ! 2)) letter
         \<and> sublist (call_to_action org) letter
         \<and> sublist (contact_info org) letter))
   \<and> (requests_post env (letter_prompt env org marine_data) = Inl e' \<longrightarrow>
        call_openrouter env (letter_prompt env org marine_data) = Inl e')
   \<and> (\<forall>r. requests_post env (letter_prompt env org marine_data) = Inr r
            \<and> raise_for_status r = Inl e' \<longrightarrow>
        call_openrouter env (letter_prompt env org marine_data) = Inl e')
   \<and> (\<forall>r u. requests_post env (letter_prompt env org marine_data) = Inr r
            \<and> raise_for_status r = Inr u \<and> json_body r = Inl e' \<longrightarrow>
        call_openrouter env (letter_prompt env org marine_data) = Inl e')"
proof -
  have a: "fst (generate_tweet (s(''data'' \<mapsto> d)) w) = Inl e
      \<and> fst (run_ocean_tweet_workflow d w) = Inl e
      \<and> snd (snd (run_ocean_tweet_workflow d w)) = [''generate_tweet'']"
    if "truthy d" "llm_invoke w (tweet_prompt d) = Inl e"
    using generate_tweet_raises [OF that] run_ocean_tweet_workflow_raises [OF that] by simp
  have b: "\<exists>letter.
         letter =
     NL @ ''Date: '' @ today env
      @ NL @ name org
      @ NL @ ''Marine Conservation Advocacy Division''
      @ NL
      @ NL @ ''Dear '' @ target_audience org @ '',''
      @ NL
      @ NL @ ''Subject: Urgent Action Required - Marine Health Status Update for ''
         @ region marine_data
      @ NL
      @ NL @ ''Our latest marine health assessment reveals a SARgonauts Index of ''
         @ format_1f env (current_index marine_data) @ ''/100 for the ''
         @ region marine_data @ '' region, indicating ''
         @ lower (severity_level marine_data) @ '' conditions.''
      @ NL
      @ NL @ ''KEY ISSUES:''
      @ NL @ join NL (map (\<lambda>issue. bullet @ '' '' @ title issue) (key_issues marine_data))
      @ NL
      @ NL @ ''RECOMMENDED IMMEDIATE ACTIONS:''
      @ NL @ ''1. '' @ title (focus_areas org ! 0) @ '' - Implement enhanced monitoring systems''
      @ NL @ ''2. '' @ title (focus_areas org ! 1) @ '' - Increase resource allocation''
      @ NL @ ''3. '' @ title (focus_areas org ! 2) @ '' - Establish new partnerships''
      @ NL
      @ NL @ ''We urge you to '' @ call_to_action org @ '' within the next 30 days.''
      @ NL
      @ NL @ ''Sincerely yours,''
      @ NL @ ''SARgonauts''
      @ NL @ contact_info org
      @ NL
         \<and> fallback_letter env org_key marine_data = Inr letter
         \<and> generate_letter_with_grok env org_key marine_data = Inr (JStr letter)
         \<and> sublist (today env) letter
         \<and> sublist (name org) letter
         \<and> sublist (target_audience org) letter
         \<and> sublist (region marine_data) letter
         \<and> sublist (format_1f env (current_index marine_data)) letter
         \<and> sublist (lower (severity_level marine_data)) letter
         \<and> (\<forall>issue \<in> set (key_issues marine_data). sublist (title issue) letter)
         \<and> sublist (title (focus_areas org ! 0)) letter
         \<and> sublist (title (focus_areas org ! 1)) letter
         \<and> sublist (title (focus_areas org ! 2)) letter
         \<and> sublist (call_to_action org) letter
         \<and> sublist (contact_info org) letter"
    if o: "map_of organizations org_key = Some org"
      and c: "call_openrouter env (letter_prompt env org marine_data) = Inl e'"
  proof -
    define letter where "letter =
     NL @ ''Date: '' @ today env
      @ NL @ name org
      @ NL @ ''Marine Conservation Advocacy Division''
      @ NL
      @ NL @ ''Dear '' @ target_audience org @ '',''
      @ NL
      @ NL @ ''Subject: Urgent Action Required - Marine Health Status Update for ''
         @ region marine_data
      @ NL
      @ NL @ ''Our latest marine health assessment reveals a SARgonauts Index of ''
         @ format_1f env (current_index marine_data) @ ''/100 for the ''
         @ region marine_data @ '' region, indicating ''
         @ lower (severity_level marine_data) @ '' conditions.''
      @ NL
      @ NL @ ''KEY ISSUES:''
      @ NL @ join NL (map (\<lambda>issue. bullet @ '' '' @ title issue) (key_issues marine_data))
      @ NL
      @ NL @ ''RECOMMENDED IMMEDIATE ACTIONS:''
      @ NL @ ''1. '' @ title (focus_areas org ! 0) @ '' - Implement enhanced monitoring systems''
      @ NL @ ''2. '' @ title (focus_areas org ! 1) @ '' - Increase resource allocation''
      @ NL @ ''3. '' @ title (focus_areas org ! 2) @ '' - Establish new partnerships''
      @ NL
      @ NL @ ''We urge you to '' @ call_to_action org @ '' within the next 30 days.''
      @ NL
      @ NL @ ''Sincerely yours,''
      @ NL @ ''SARgonauts''
      @ NL @ contact_info org
      @ NL"
    have f: "fallback_letter env org_key marine_data = Inr letter"
      unfolding letter_def by (rule fallback_letter_text [OF o])
    have g: "generate_letter_with_grok env org_key marine_data = Inr (JStr letter)"
      using generate_letter_with_grok_fallback [OF o c] f by simp
    show ?thesis
      using letter_def f g fallback_letter_content [OF letter_def] by blast
  qed
  show ?thesis
    using a b call_openrouter_raises [of env "letter_prompt env org marine_data"] by blast
qed


lemma sample_fallback_letter:
  "fallback_letter offline_env ''communities'' sample_marine_data =
     Inr (NL @ ''Date: September 20, 2025''
           @ NL @ ''Coastal Communities Alliance''
           @ NL @ ''Marine Conservation Advocacy Division''
           @ NL
           @ NL @ ''Dear Local Communities, Volunteers, Community Leaders, Residents,''
           @ NL
           @ NL @ ''Subject: Urgent Action Required - Marine Health Status Update for Bay of Bengal''
           @ NL
           @ NL @ ''Our latest marine health assessment reveals a SARgonauts Index of 78.4/100 for the Bay of Bengal region, indicating good conditions.''
           @ NL
           @ NL @ ''KEY ISSUES:''
           @ NL @ bullet @ '' Fish Population Decline In Commercial Zones''
           @ NL
           @ NL @ ''RECOMMENDED IMMEDIATE ACTIONS:''
           @ NL @ ''1. Grassroots Action - Implement enhanced monitoring systems''
           @ NL @ ''2. Local Impact - Increase resource allocation''
           @ NL @ ''3. Community Engagement - Establish new partnerships''
           @ NL
           @ NL @ ''We urge you to join local conservation efforts and engage in community marine protection within the next 30 days.''
           @ NL
           @ NL @ ''Sincerely yours,''
           @ NL @ ''SARgonauts''
           @ NL @ ''dheunsac@gmail.com''
           @ NL)"
  by code_simp

theorem generation_failure_asymmetry_witness:
  "truthy (PyStr ''oil spill'')
   \<and> llm_invoke stormy_world (tweet_prompt (PyStr ''oil spill'')) = Inl (Raised ''quota exceeded'')
   \<and> fst (run_ocean_tweet_workflow (PyStr ''oil spill'') stormy_world) = Inl (Raised ''quota exceeded'')
   \<and> map_of organizations ''communities'' \<noteq> None
   \<and> requests_post offline_env
         (letter_prompt offline_env (the (map_of organizations ''communities'')) sample_marine_data)
         = Inl (Raised ''ConnectionError'')
   \<and> generate_letter_with_grok offline_env ''communities'' sample_marine_data =
       Inr (JStr (NL @ ''Date: September 20, 2025''
           @ NL @ ''Coastal Communities Alliance''
           @ NL @ ''Marine Conservation Advocacy Division''
           @ NL
           @ NL @ ''Dear Local Communities, Volunteers, Community Leaders, Residents,''
           @ NL
           @ NL @ ''Subject: Urgent Action Required - Marine Health Status Update for Bay of Bengal''
           @ NL
           @ NL @ ''Our latest marine health assessment reveals a SARgonauts Index of 78.4/100 for the Bay of Bengal region, indicating good conditions.''
           @ NL
           @ NL @ ''KEY ISSUES:''
           @ NL @ bullet @ '' Fish Population Decline In Commercial Zones''
           @ NL
           @ NL @ ''RECOMMENDED IMMEDIATE ACTIONS:''
           @ NL @ ''1. Grassroots Action - Implement enhanced monitoring systems''
           @ NL @ ''2. Local Impact - Increase resource allocation''
           @ NL @ ''3. Community Engagement - Establish new partnerships''
           @ NL
           @ NL @ ''We urge you to join local conservation efforts and engage in community marine protection within the next 30 days.''
           @ NL
           @ NL @ ''Sincerely yours,''
           @ NL @ ''SARgonauts''
           @ NL @ ''dheunsac@gmail.com''
           @ NL))"
proof -
  have o: "map_of organizations ''communities'' = Some (the (map_of organizations ''communities''))"
    by (simp add: organizations_def)
  have r: "requests_post offline_env
         (letter_prompt offline_env (the (map_of organizations ''communities'')) sample_marine_data)
         = Inl (Raised ''ConnectionError'')"
    by (simp add: offline_env_def)
  have l: "llm_invoke stormy_world (tweet_prompt (PyStr ''oil spill'')) = Inl (Raised ''quota exceeded'')"
    by (simp add: stormy_world_def calm_world_def)
  have t: "truthy (PyStr ''oil spill'')" by simp
  have n: "map_of organizations ''communities'' \<noteq> None"
    by (simp add: organizations_def)
  note th = generation_failure_asymmetry
            [where d = "PyStr ''oil spill''" and w = stormy_world and e = "Raised ''quota exceeded''"
               and s = Map.empty and org_key = "''communities''"
               and org = "the (map_of organizations ''communities'')"
               and env = offline_env and marine_data = sample_marine_data
               and e' = "Raised ''ConnectionError''"]
  from th t l have a: "fst (run_ocean_tweet_workflow (PyStr ''oil spill'') stormy_world)
      = Inl (Raised ''quota exceeded'')"
    by blast
  from th r have c: "call_openrouter offline_env
         (letter_prompt offline_env (the (map_of organizations ''communities'')) sample_marine_data)
         = Inl (Raised ''ConnectionError'')"
    by blast
  from th o c obtain letter where
    "fallback_letter offline_env ''communities'' sample_marine_data = Inr letter"
    "generate_letter_with_grok offline_env ''communities'' sample_marine_data = Inr (JStr letter)"
    by blast
  then have b: "generate_letter_with_grok offline_env ''communities'' sample_marine_data =
       Inr (JStr (NL @ ''Date: September 20, 2025''
           @ NL @ ''Coastal Communities Alliance''
           @ NL @ ''Marine Conservation Advocacy Division''
           @ NL
           @ NL @ ''Dear Local Communities, Volunteers, Community Leaders, Residents,''
           @ NL
           @ NL @ ''Subject: Urgent Action Required - Marine Health Status Update for Bay of Bengal''
           @ NL
           @ NL @ ''Our latest marine health assessment reveals a SARgonauts Index of 78.4/100 for the Bay of Bengal region, indicating good conditions.''
           @ NL
           @ NL @ ''KEY ISSUES:''
           @ NL @ bullet @ '' Fish Population Decline In Commercial Zones''
           @ NL
           @ NL @ ''RECOMMENDED IMMEDIATE ACTIONS:''
           @ NL @ ''1. Grassroots Action - Implement enhanced monitoring systems''
           @ NL @ ''2. Local Impact - Increase resource allocation''
           @ NL @ ''3. Community Engagement - Establish new partnerships''
           @ NL
           @ NL @ ''We urge you to join local conservation efforts and engage in community marine protection within the next 30 days.''
           @ NL
           @ NL @ ''Sincerely yours,''
           @ NL @ ''SARgonauts''
           @ NL @ ''dheunsac@gmail.com''
           @ NL))"
    using sample_fallback_letter by simp
  show ?thesis
    by (intro conjI) (rule t l a n r b)+
qed

end
